theory Spec2Isabelle
  imports Complex_Main "HOL-Library.Char_ord" "HOL-Library.List_Lexorder"
begin

section \<open>Project Samarth: analytics, query parsing and the fetch cache\<close>

text \<open>
  The development embeds three modules of the repository:
  \<^item> \<^verbatim>\<open>src/analytics.py\<close> (class \<^verbatim>\<open>AnalyticsEngine\<close>): the aggregation routines
    over tabular data and the confidence score;
  \<^item> \<^verbatim>\<open>src/query_engine.py\<close> (class \<^verbatim>\<open>QueryEngine\<close>): the entity extraction from
    the query text and the top-level \<^verbatim>\<open>process_query\<close>;
  \<^item> \<^verbatim>\<open>src/data_fetcher.py\<close> (class \<^verbatim>\<open>DataFetcher\<close>) with the tables of
    \<^verbatim>\<open>src/config.py\<close>: the disk cache and the fallback chain of \<^verbatim>\<open>fetch_data\<close>.

  Conventions. Python \<^verbatim>\<open>int\<close> is \<^typ>\<open>int\<close>; a Python \<^verbatim>\<open>float\<close> is a real number
  or one of the three special values (type \<open>pyfloat\<close> below), so rounding is idealised
  while division by zero and NaN comparisons behave as in the source; a \<^verbatim>\<open>str\<close> is a
  \<^typ>\<open>string\<close> of ASCII characters; a \<^verbatim>\<open>dict\<close> is an association list with distinct keys
  in insertion order; a raised exception is the \<open>Inl\<close> of a sum type.
\<close>

subsection \<open>Exceptions\<close>

text \<open>An exception is its class and its argument; \<open>OtherError\<close> stands for every other
  class derived from \<^verbatim>\<open>Exception\<close>, with its message. \<open>str_of_error\<close> is \<^verbatim>\<open>str(e)\<close>: the
  message, and for a \<^verbatim>\<open>KeyError\<close> the key in quotes.\<close>

datatype py_error =
  KeyError string
| ValueError string
| TypeError string
| AttributeError string
| OtherError string

fun str_of_error :: "py_error \<Rightarrow> string" where
  "str_of_error (KeyError k) = [CHR 0x27] @ k @ [CHR 0x27]"
| "str_of_error (ValueError m) = m"
| "str_of_error (TypeError m) = m"
| "str_of_error (AttributeError m) = m"
| "str_of_error (OtherError m) = m"

subsection \<open>Floats\<close>

datatype pyfloat = Fin real | PInf | NInf | NaN

text \<open>\<^verbatim>\<open>a > b\<close> and \<^verbatim>\<open>a < b\<close> on floats: every comparison with NaN is false.\<close>

fun fgt :: "pyfloat \<Rightarrow> pyfloat \<Rightarrow> bool" where
  "fgt NaN _ = False"
| "fgt _ NaN = False"
| "fgt (Fin a) (Fin b) = (a > b)"
| "fgt PInf PInf = False"
| "fgt PInf _ = True"
| "fgt _ PInf = False"
| "fgt NInf _ = False"
| "fgt (Fin a) NInf = True"

definition flt :: "pyfloat \<Rightarrow> pyfloat \<Rightarrow> bool" where
  "flt a b = fgt b a"

text \<open>IEEE addition, multiplication by a finite positive constant, subtraction of a
  finite constant and division of two finite numbers (numpy semantics: no exception,
  \<open>x / 0\<close> is an infinity of the sign of \<open>x\<close>, and \<open>0 / 0\<close> is NaN).\<close>

fun fadd :: "pyfloat \<Rightarrow> pyfloat \<Rightarrow> pyfloat" where
  "fadd NaN _ = NaN"
| "fadd _ NaN = NaN"
| "fadd (Fin a) (Fin b) = Fin (a + b)"
| "fadd PInf NInf = NaN"
| "fadd NInf PInf = NaN"
| "fadd PInf _ = PInf"
| "fadd NInf _ = NInf"
| "fadd (Fin a) PInf = PInf"
| "fadd (Fin a) NInf = NInf"

fun fscale :: "pyfloat \<Rightarrow> real \<Rightarrow> pyfloat" where
  "fscale (Fin a) k = Fin (a * k)"
| "fscale x k = x"

fun fshift :: "pyfloat \<Rightarrow> real \<Rightarrow> pyfloat" where
  "fshift (Fin a) k = Fin (a + k)"
| "fshift x k = x"

definition fdiv :: "real \<Rightarrow> real \<Rightarrow> pyfloat" where
  "fdiv a b =
     (if b \<noteq> 0 then Fin (a / b)
      else if a > 0 then PInf
      else if a < 0 then NInf
      else NaN)"

subsection \<open>The confidence score (\<^verbatim>\<open>AnalyticsEngine._calculate_confidence\<close>)\<close>

definition calculate_confidence :: "int \<Rightarrow> real" where
  "calculate_confidence data_points =
     (if data_points = 0 then 0.0
      else if data_points < 10 then 0.5
      else if data_points < 50 then 0.7
      else if data_points < 100 then 0.85
      else 0.95)"

subsection \<open>Tabular data\<close>

text \<open>
  A pandas \<^verbatim>\<open>DataFrame\<close> is its list of column labels and its rows in order. A row carries
  the cells of the columns the analysis routines read (section 3 of the specification:
  \<^verbatim>\<open>state\<close>, \<^verbatim>\<open>district\<close>, \<^verbatim>\<open>crop\<close>, \<^verbatim>\<open>year\<close>, \<^verbatim>\<open>annual_rainfall_mm\<close>,
  \<^verbatim>\<open>production_tonnes\<close>); a cell of a
  column that is not listed in \<open>columns\<close> is never read, and every listed cell is present
  and of the column's type. Reading a column that is not listed raises \<^verbatim>\<open>KeyError\<close>.
\<close>

record row =
  state :: string
  district :: string
  crop :: string
  year :: int
  annual_rainfall_mm :: real
  production_tonnes :: real

record data_frame =
  columns :: "string list"
  rows :: "row list"

text \<open>\<^verbatim>\<open>df.empty\<close>: an axis of length 0. \<^verbatim>\<open>len(df)\<close>: the number of rows.\<close>

definition df_empty :: "data_frame \<Rightarrow> bool" where
  "df_empty df = (rows df = [] \<or> columns df = [])"

definition df_len :: "data_frame \<Rightarrow> int" where
  "df_len df = int (length (rows df))"

definition has_col :: "data_frame \<Rightarrow> string \<Rightarrow> bool" where
  "has_col df c = (c \<in> set (columns df))"

text \<open>The numeric columns of the model, with the cell they read.\<close>

definition numeric_col :: "string \<Rightarrow> (row \<Rightarrow> real) option" where
  "numeric_col c =
     (if c = ''year'' then Some (\<lambda>r. real_of_int (year r))
      else if c = ''annual_rainfall_mm'' then Some annual_rainfall_mm
      else if c = ''production_tonnes'' then Some production_tonnes
      else None)"

text \<open>\<^verbatim>\<open>groupby(key)[col].sum()\<close> and \<^verbatim>\<open>.mean()\<close>: one entry per distinct key, keys
  in ascending order (pandas sorts the group keys). Grouping by a label that is no column
  raises \<^verbatim>\<open>KeyError(key)\<close>, selecting one raises \<^verbatim>\<open>KeyError('Column not found: col')\<close>.\<close>

definition group_keys :: "('k::linorder) list \<Rightarrow> 'k list" where
  "group_keys ks = sort (remdups ks)"

definition mean :: "real list \<Rightarrow> real" where
  "mean xs = sum_list xs / real (length xs)"

definition groupby_sum :: "(row \<Rightarrow> 'k::linorder) \<Rightarrow> (row \<Rightarrow> real) \<Rightarrow> row list \<Rightarrow> ('k \<times> real) list" where
  "groupby_sum key val rs =
     map (\<lambda>k. (k, sum_list (map val (filter (\<lambda>r. key r = k) rs)))) (group_keys (map key rs))"

definition groupby_mean :: "(row \<Rightarrow> 'k::linorder) \<Rightarrow> (row \<Rightarrow> real) \<Rightarrow> row list \<Rightarrow> ('k \<times> real) list" where
  "groupby_mean key val rs =
     map (\<lambda>k. (k, mean (map val (filter (\<lambda>r. key r = k) rs)))) (group_keys (map key rs))"

text \<open>\<^verbatim>\<open>sort_values(ascending=False)\<close>: descending by value; entries of equal value keep
  their order (the source does not fix the order among ties).\<close>

definition sort_values_desc :: "('k \<times> real) list \<Rightarrow> ('k \<times> real) list" where
  "sort_values_desc xs = sort_key (\<lambda>p. - snd p) xs"

text \<open>\<^verbatim>\<open>head(n)\<close>: the first \<open>n\<close> entries; for a negative \<open>n\<close>, all but the last \<open>-n\<close>.\<close>

definition head :: "int \<Rightarrow> 'a list \<Rightarrow> 'a list" where
  "head n xs = (if 0 \<le> n then take (nat n) xs else take (length xs - nat (- n)) xs)"

subsection \<open>The inputs of the analysis routines\<close>

text \<open>\<^verbatim>\<open>data_results\<close> maps a key (\<^verbatim>\<open>'rainfall'\<close>, \<^verbatim>\<open>'production'\<close>, \<^verbatim>\<open>'district_<state>'\<close>)
  to a dict with the entries \<^verbatim>\<open>'dataframe'\<close> and \<^verbatim>\<open>'source'\<close>, as
  \<^verbatim>\<open>_fetch_data_for_query\<close> builds it.\<close>

record 's data_info =
  dataframe :: data_frame
  source :: 's

type_synonym 's data_results = "(string \<times> 's data_info) list"

record parsed_query =
  original_query :: string
  intent :: string
  states :: "string list"
  crops :: "string set"
  years :: "int list"
  top_n :: int
  districts :: "string list"
  metrics :: "string list"

text \<open>The dict every routine returns: its own summary entry, \<^verbatim>\<open>'data'\<close>,
  \<^verbatim>\<open>'confidence'\<close> and \<^verbatim>\<open>'data_points'\<close>.\<close>

record ('p, 's) analysis =
  payload :: 'p
  results_data :: "'s data_results"
  confidence :: real
  data_points :: int

subsection \<open>Strings\<close>

text \<open>\<^verbatim>\<open>s.startswith(p)\<close> and the substring test \<^verbatim>\<open>p in s\<close>.\<close>

fun starts_with :: "string \<Rightarrow> string \<Rightarrow> bool" where
  "starts_with [] s = True"
| "starts_with (p # ps) [] = False"
| "starts_with (p # ps) (c # cs) = (if p = c then starts_with ps cs else False)"

fun is_in :: "string \<Rightarrow> string \<Rightarrow> bool" where
  "is_in p [] = (p = [])"
| "is_in p (c # cs) = (if starts_with p (c # cs) then True else is_in p cs)"

text \<open>\<^verbatim>\<open>Series.unique()\<close>: the distinct values in order of first appearance.\<close>

definition unique :: "'a list \<Rightarrow> 'a list" where
  "unique xs = rev (remdups (rev xs))"

subsection \<open>\<^verbatim>\<open>AnalyticsEngine.compare_analysis\<close>\<close>

record compare_summary =
  rainfall_comparison :: "(string \<times> real) list option"
  crop_comparison :: "(string \<times> (string \<times> real) list) list option"

text \<open>The rainfall block: the summary entry it adds (if any) and its share of
  \<open>data_points\<close>.\<close>

definition compare_rainfall :: "'s data_results \<Rightarrow> py_error + ((string \<times> real) list option \<times> int)" where
  "compare_rainfall dr =
     (case map_of dr ''rainfall'' of
        None \<Rightarrow> Inr (None, 0)
      | Some info \<Rightarrow>
          (let rainfall_df = dataframe info in
           if df_empty rainfall_df then Inr (None, 0)
           else if \<not> has_col rainfall_df ''state'' then Inl (KeyError ''state'')
           else if \<not> has_col rainfall_df ''annual_rainfall_mm'' then
             Inl (KeyError ''Column not found: annual_rainfall_mm'')
           else Inr (Some (groupby_mean state annual_rainfall_mm (rows rainfall_df)),
                     df_len rainfall_df)))"

definition compare_production ::
  "'s data_results \<Rightarrow> py_error + ((string \<times> (string \<times> real) list) list option \<times> int)" where
  "compare_production dr =
     (case map_of dr ''production'' of
        None \<Rightarrow> Inr (None, 0)
      | Some info \<Rightarrow>
          (let production_df = dataframe info in
           if df_empty production_df then Inr (None, 0)
           else if \<not> has_col production_df ''state'' then Inl (KeyError ''state'')
           else if \<not> has_col production_df ''crop'' then Inl (KeyError ''crop'')
           else if \<not> has_col production_df ''production_tonnes'' then
             Inl (KeyError ''Column not found: production_tonnes'')
           else Inr (Some (map (\<lambda>st. (st,
                        head 5 (sort_values_desc (groupby_sum crop production_tonnes
                          (filter (\<lambda>r. state r = st) (rows production_df))))))
                      (unique (map state (rows production_df)))),
                     df_len production_df)))"

definition compare_analysis ::
  "parsed_query \<Rightarrow> 's data_results \<Rightarrow> py_error + (compare_summary, 's) analysis" where
  "compare_analysis pq dr =
     (case compare_rainfall dr of
        Inl e \<Rightarrow> Inl e
      | Inr (rc, n1) \<Rightarrow>
          (case compare_production dr of
             Inl e \<Rightarrow> Inl e
           | Inr (cc, n2) \<Rightarrow>
               Inr \<lparr>payload = \<lparr>rainfall_comparison = rc, crop_comparison = cc\<rparr>,
                    results_data = dr,
                    confidence = calculate_confidence (0 + n1 + n2),
                    data_points = 0 + n1 + n2\<rparr>))"

subsection \<open>\<^verbatim>\<open>AnalyticsEngine.top_n_analysis\<close>\<close>

text \<open>An entry of \<^verbatim>\<open>top_results\<close>; its \<^verbatim>\<open>'value'\<close> is the field \<open>val\<close>.\<close>

record top_result =
  name :: string
  val :: real
  unit :: string

definition top_n_analysis ::
  "parsed_query \<Rightarrow> 's data_results \<Rightarrow> py_error + (top_result list, 's) analysis" where
  "top_n_analysis pq dr =
     (case
        (case map_of dr ''production'' of
           Some info \<Rightarrow>
             (let production_df = dataframe info in
              if df_empty production_df then Inr ([], 0)
              else if \<not> has_col production_df ''crop'' then Inl (KeyError ''crop'')
              else if \<not> has_col production_df ''production_tonnes'' then
                Inl (KeyError ''Column not found: production_tonnes'')
              else Inr (map (\<lambda>(c, production). \<lparr>name = c, val = production, unit = ''tonnes''\<rparr>)
                          (head (top_n pq) (sort_values_desc
                             (groupby_sum crop production_tonnes (rows production_df)))),
                        df_len production_df))
         | None \<Rightarrow>
             (case map_of dr ''rainfall'' of
                Some info \<Rightarrow>
                  (let rainfall_df = dataframe info in
                   if df_empty rainfall_df then Inr ([], 0)
                   else if \<not> has_col rainfall_df ''state'' then Inl (KeyError ''state'')
                   else if \<not> has_col rainfall_df ''annual_rainfall_mm'' then
                     Inl (KeyError ''Column not found: annual_rainfall_mm'')
                   else Inr (map (\<lambda>(st, rainfall). \<lparr>name = st, val = rainfall, unit = ''mm''\<rparr>)
                               (head (top_n pq) (sort_values_desc
                                  (groupby_mean state annual_rainfall_mm (rows rainfall_df)))),
                             df_len rainfall_df))
              | None \<Rightarrow> Inr ([], 0)))
      of
        Inl e \<Rightarrow> Inl e
      | Inr (top_results, n) \<Rightarrow>
          Inr \<lparr>payload = top_results, results_data = dr,
               confidence = calculate_confidence n, data_points = n\<rparr>)"

subsection \<open>\<^verbatim>\<open>AnalyticsEngine.trend_analysis\<close>\<close>

text \<open>\<^verbatim>\<open>Series.pct_change()\<close> is \<^verbatim>\<open>data / data.shift(1) - 1\<close>: NaN in the first place,
  then the relative change from the entry before. \<^verbatim>\<open>Series.mean()\<close> skips NaN: the sum
  of the other entries over their number, NaN when there is none.\<close>

definition pct_change :: "real list \<Rightarrow> pyfloat list" where
  "pct_change xs =
     (case xs of
        [] \<Rightarrow> []
      | x # rest \<Rightarrow> NaN # map (\<lambda>(prev, cur). fshift (fdiv cur prev) (- 1)) (zip xs rest))"

definition nanmean :: "pyfloat list \<Rightarrow> pyfloat" where
  "nanmean xs =
     (let ys = filter (\<lambda>x. x \<noteq> NaN) xs
      in if ys = [] then NaN else fscale (foldl fadd (Fin 0) ys) (1 / real (length ys)))"

record trend_summary =
  direction :: string
  growth_rate :: pyfloat
  start_year :: int
  end_year :: int
  start_value :: real
  end_value :: real
  yearly_data :: "(int \<times> real) list"

text \<open>The production block, entered when \<^verbatim>\<open>'production'\<close> is a key of
  \<^verbatim>\<open>data_results\<close>: the summary (\<open>None\<close> is the empty dict) and \<open>data_points\<close>.\<close>

definition production_trend :: "data_frame \<Rightarrow> py_error + (trend_summary option \<times> int)" where
  "production_trend production_df =
     (if \<not> df_empty production_df \<and> has_col production_df ''year'' then
        (if \<not> has_col production_df ''production_tonnes'' then
          Inl (KeyError ''Column not found: production_tonnes'')
         else
           (let yearly_total = groupby_sum year production_tonnes (rows production_df) in
            if length yearly_total > 1 then
              (let growth_rates = map (\<lambda>g. fscale g 100) (pct_change (map snd yearly_total));
                   avg_growth = nanmean growth_rates;
                   dir = (if fgt avg_growth (Fin 2) then ''increasing''
                          else if flt avg_growth (Fin (- 2)) then ''decreasing''
                          else ''stable'')
               in Inr (Some \<lparr>direction = dir,
                             growth_rate = avg_growth,
                             start_year = fst (hd yearly_total),
                             end_year = fst (last yearly_total),
                             start_value = snd (hd yearly_total),
                             end_value = snd (last yearly_total),
                             yearly_data = yearly_total\<rparr>,
                       df_len production_df))
            else Inr (None, 0)))
      else Inr (None, 0))"

text \<open>The rainfall block, entered when \<^verbatim>\<open>'production'\<close> is no key and \<^verbatim>\<open>'rainfall'\<close>
  is one.\<close>

definition rainfall_trend :: "data_frame \<Rightarrow> py_error + (trend_summary option \<times> int)" where
  "rainfall_trend rainfall_df =
     (if \<not> df_empty rainfall_df \<and> has_col rainfall_df ''year'' then
        (if \<not> has_col rainfall_df ''annual_rainfall_mm'' then
          Inl (KeyError ''Column not found: annual_rainfall_mm'')
         else
           (let yearly_rainfall = groupby_mean year annual_rainfall_mm (rows rainfall_df) in
            if length yearly_rainfall > 1 then
              (let growth_rates = map (\<lambda>g. fscale g 100) (pct_change (map snd yearly_rainfall));
                   avg_growth = nanmean growth_rates;
                   dir = (if fgt avg_growth (Fin 1) then ''increasing''
                          else (if flt avg_growth (Fin (- 1)) then ''decreasing'' else ''stable''))
               in Inr (Some \<lparr>direction = dir,
                             growth_rate = avg_growth,
                             start_year = fst (hd yearly_rainfall),
                             end_year = fst (last yearly_rainfall),
                             start_value = snd (hd yearly_rainfall),
                             end_value = snd (last yearly_rainfall),
                             yearly_data = yearly_rainfall\<rparr>,
                       df_len rainfall_df))
            else Inr (None, 0)))
      else Inr (None, 0))"

definition trend_analysis ::
  "parsed_query \<Rightarrow> 's data_results \<Rightarrow> py_error + (trend_summary option, 's) analysis" where
  "trend_analysis pq dr =
     (case
        (case map_of dr ''production'' of
           Some info \<Rightarrow> production_trend (dataframe info)
         | None \<Rightarrow>
             (case map_of dr ''rainfall'' of
                Some info \<Rightarrow> rainfall_trend (dataframe info)
              | None \<Rightarrow> Inr (None, 0)))
      of
        Inl e \<Rightarrow> Inl e
      | Inr (ts, n) \<Rightarrow>
          Inr \<lparr>payload = ts, results_data = dr,
               confidence = calculate_confidence n, data_points = n\<rparr>)"

subsection \<open>\<^verbatim>\<open>AnalyticsEngine.correlation_analysis\<close>\<close>

text \<open>\<^verbatim>\<open>pd.merge(left, right, on=['state', 'year'], how='inner')\<close>: one row for every pair
  of a left and a right row that agree on both keys, in the order of the left rows.\<close>

definition merge_inner :: "row list \<Rightarrow> row list \<Rightarrow> (row \<times> row) list" where
  "merge_inner ls rs =
     concat (map (\<lambda>l. map (\<lambda>r. (l, r)) (filter (\<lambda>r. state r = state l \<and> year r = year l) rs)) ls)"

text \<open>A value column of the merged table. A label of both tables that is no join key is
  renamed by the merge (suffixes \<^verbatim>\<open>_x\<close>, \<^verbatim>\<open>_y\<close>), so reading it by its plain name raises
  \<^verbatim>\<open>KeyError\<close>, as reading a label of neither table does.\<close>

definition merged_col ::
  "string \<Rightarrow> (row \<Rightarrow> real) \<Rightarrow> data_frame \<Rightarrow> data_frame \<Rightarrow> (row \<times> row) list \<Rightarrow> py_error + real list" where
  "merged_col c cell left right merged =
     (if has_col left c \<and> has_col right c then Inl (KeyError c)
      else if has_col left c then Inr (map (\<lambda>p. cell (fst p)) merged)
      else if has_col right c then Inr (map (\<lambda>p. cell (snd p)) merged)
      else Inl (KeyError c))"

fun fabs :: "pyfloat \<Rightarrow> pyfloat" where
  "fabs (Fin a) = Fin \<bar>a\<bar>"
| "fabs NaN = NaN"
| "fabs x = PInf"

definition interpret_correlation :: "pyfloat \<Rightarrow> string" where
  "interpret_correlation corr_coef =
     (let abs_corr = fabs corr_coef;
          strength = (if fgt abs_corr (Fin 0.7) then ''strong''
                      else if fgt abs_corr (Fin 0.4) then ''moderate''
                      else if fgt abs_corr (Fin 0.2) then ''weak''
                      else ''very weak'');
          dir = (if fgt corr_coef (Fin 0) then ''positive'' else ''negative'')
      in strength @ '' '' @ dir @ '' correlation'')"

text \<open>The entry \<^verbatim>\<open>'interpretation'\<close> of the source is the field \<open>interpretation_text\<close>.\<close>

record correlation_results =
  correlation_coefficient :: pyfloat
  p_value :: pyfloat
  significance :: string
  interpretation_text :: string
  sample_size :: int

text \<open>\<^verbatim>\<open>scipy.stats.pearsonr\<close> is library code: the routine takes it as the parameter
  \<open>pearsonr\<close>, from the two value columns to the coefficient and the p-value.\<close>

definition correlation_analysis ::
  "(real list \<Rightarrow> real list \<Rightarrow> pyfloat \<times> pyfloat) \<Rightarrow> parsed_query \<Rightarrow> 's data_results
     \<Rightarrow> py_error + (correlation_results option, 's) analysis" where
  "correlation_analysis pearsonr pq dr =
     (case
        (case (map_of dr ''rainfall'', map_of dr ''production'') of
           (Some rinfo, Some pinfo) \<Rightarrow>
             (let rainfall_df = dataframe rinfo; production_df = dataframe pinfo in
              if \<not> df_empty rainfall_df \<and> \<not> df_empty production_df then
                (if has_col rainfall_df ''year'' \<and> has_col production_df ''year'' then
                   (if \<not> has_col rainfall_df ''state'' \<or> \<not> has_col production_df ''state''
                    then Inl (KeyError ''state'')
                    else
                      (let merged = merge_inner (rows rainfall_df) (rows production_df) in
                       if length merged > 5 then
                         (case merged_col ''annual_rainfall_mm'' annual_rainfall_mm
                                 rainfall_df production_df merged of
                            Inl e \<Rightarrow> Inl e
                          | Inr xs \<Rightarrow>
                              (case merged_col ''production_tonnes'' production_tonnes
                                      rainfall_df production_df merged of
                                 Inl e \<Rightarrow> Inl e
                               | Inr ys \<Rightarrow>
                                   (let (corr_coef, p) = pearsonr xs ys in
                                    Inr (Some \<lparr>correlation_coefficient = corr_coef,
                                               p_value = p,
                                               significance = (if flt p (Fin 0.05) then ''significant''
                                                               else ''not significant''),
                                               interpretation_text = interpret_correlation corr_coef,
                                               sample_size = int (length merged)\<rparr>,
                                         int (length merged)))))
                       else Inr (None, 0)))
                 else Inr (None, 0))
              else Inr (None, 0))
         | _ \<Rightarrow> Inr (None, 0))
      of
        Inl e \<Rightarrow> Inl e
      | Inr (cr, n) \<Rightarrow>
          Inr \<lparr>payload = cr, results_data = dr,
               confidence = calculate_confidence n, data_points = n\<rparr>)"

subsection \<open>\<^verbatim>\<open>AnalyticsEngine.general_analysis\<close>\<close>

text \<open>The statistics of a numeric column: the median is the middle of the sorted cells
  (the mean of the two middle ones for an even number), the standard deviation is the
  sample one (\<^verbatim>\<open>ddof=1\<close>), NaN for a single cell.\<close>

definition median :: "real list \<Rightarrow> real" where
  "median xs =
     (let ys = sort xs; n = length ys
      in if even n then (ys ! (n div 2 - 1) + ys ! (n div 2)) / 2 else ys ! (n div 2))"

definition std :: "real list \<Rightarrow> pyfloat" where
  "std xs =
     (case fdiv (sum_list (map (\<lambda>x. (x - mean xs)\<^sup>2) xs)) (real (length xs) - 1) of
        Fin v \<Rightarrow> Fin (sqrt v)
      | other \<Rightarrow> other)"

record col_stats =
  stat_mean :: real
  stat_median :: real
  stat_min :: real
  stat_max :: real
  stat_std :: pyfloat

record general_entry =
  record_count :: int
  entry_columns :: "string list"
  sample_data :: "row list"
  column_stats :: "(string \<times> col_stats) list"

text \<open>One summary entry, for a frame that is not empty (so every column has a cell).\<close>

definition general_entry_of :: "data_frame \<Rightarrow> general_entry" where
  "general_entry_of df =
     \<lparr>record_count = df_len df,
      entry_columns = columns df,
      sample_data = head 5 (rows df),
      column_stats =
        concat (map (\<lambda>col.
          (case numeric_col col of
             None \<Rightarrow> []
           | Some cell \<Rightarrow>
               (let xs = map cell (rows df) in
                [(col @ ''_stats'',
                  \<lparr>stat_mean = mean xs, stat_median = median xs,
                   stat_min = Min (set xs), stat_max = Max (set xs),
                   stat_std = std xs\<rparr>)])))
          (columns df))\<rparr>"

text \<open>Every value of \<^verbatim>\<open>data_results\<close> is a dict with a \<^verbatim>\<open>'dataframe'\<close> entry, so the
  \<^verbatim>\<open>isinstance\<close> test of the loop holds for each item.\<close>

definition general_analysis ::
  "parsed_query \<Rightarrow> 's data_results \<Rightarrow> ((string \<times> general_entry) list, 's) analysis" where
  "general_analysis pq dr =
     (let used = filter (\<lambda>(k, info). \<not> df_empty (dataframe info)) dr;
          n = 0 + sum_list (map (\<lambda>(k, info). df_len (dataframe info)) used)
      in \<lparr>payload = map (\<lambda>(k, info). (k, general_entry_of (dataframe info))) used,
          results_data = dr,
          confidence = calculate_confidence n,
          data_points = n\<rparr>)"

subsection \<open>\<^verbatim>\<open>AnalyticsEngine.district_analysis\<close>\<close>

record district_extreme =
  district_name :: string
  production :: real
  extreme_crop :: string

record district_entry =
  highest_district :: district_extreme
  lowest_district :: district_extreme
  average_production :: real
  total_districts :: int

text \<open>\<^verbatim>\<open>idxmax\<close> and \<^verbatim>\<open>idxmin\<close>: the first row that holds the largest (smallest) value.\<close>

definition idxmax_row :: "row list \<Rightarrow> row" where
  "idxmax_row rs = hd (filter (\<lambda>r. production_tonnes r = Max (set (map production_tonnes rs))) rs)"

definition idxmin_row :: "row list \<Rightarrow> row" where
  "idxmin_row rs = hd (filter (\<lambda>r. production_tonnes r = Min (set (map production_tonnes rs))) rs)"

definition district_extreme_of :: "data_frame \<Rightarrow> row \<Rightarrow> district_extreme" where
  "district_extreme_of df r =
     \<lparr>district_name = district r,
      production = production_tonnes r,
      extreme_crop = (if has_col df ''crop'' then crop r else ''N/A'')\<rparr>"

definition district_entry_of :: "data_frame \<Rightarrow> district_entry" where
  "district_entry_of df =
     \<lparr>highest_district = district_extreme_of df (idxmax_row (rows df)),
      lowest_district = district_extreme_of df (idxmin_row (rows df)),
      average_production = mean (map production_tonnes (rows df)),
      total_districts = int (length (unique (map district (rows df))))\<rparr>"

definition district_analysis ::
  "parsed_query \<Rightarrow> 's data_results \<Rightarrow> ((string \<times> district_entry) list, 's) analysis" where
  "district_analysis pq dr =
     (let used = filter (\<lambda>(k, info).
                   is_in ''district'' k \<and> \<not> df_empty (dataframe info)
                   \<and> has_col (dataframe info) ''district''
                   \<and> has_col (dataframe info) ''production_tonnes'') dr;
          n = 0 + sum_list (map (\<lambda>(k, info). df_len (dataframe info)) used)
      in \<lparr>payload = map (\<lambda>(k, info). (k, district_entry_of (dataframe info))) used,
          results_data = dr,
          confidence = calculate_confidence n,
          data_points = n\<rparr>)"

section \<open>The query engine (\<^verbatim>\<open>src/query_engine.py\<close>) and its tables (\<^verbatim>\<open>src/config.py\<close>)\<close>

subsection \<open>Configuration tables\<close>

definition INDIAN_STATES :: "string list" where
  "INDIAN_STATES =
     [''Andhra Pradesh'', ''Arunachal Pradesh'', ''Assam'', ''Bihar'', ''Chhattisgarh'',
      ''Goa'', ''Gujarat'', ''Haryana'', ''Himachal Pradesh'', ''Jharkhand'', ''Karnataka'',
      ''Kerala'', ''Madhya Pradesh'', ''Maharashtra'', ''Manipur'', ''Meghalaya'', ''Mizoram'',
      ''Nagaland'', ''Odisha'', ''Punjab'', ''Rajasthan'', ''Sikkim'', ''Tamil Nadu'',
      ''Telangana'', ''Tripura'', ''Uttar Pradesh'', ''Uttarakhand'', ''West Bengal'',
      ''Delhi'', ''Jammu and Kashmir'', ''Ladakh'', ''Puducherry'', ''Chandigarh'',
      ''Dadra and Nagar Haveli'', ''Daman and Diu'', ''Lakshadweep'',
      ''Andaman and Nicobar Islands'']"

definition STATE_ABBREVIATIONS :: "(string \<times> string) list" where
  "STATE_ABBREVIATIONS =
     [(''AP'', ''Andhra Pradesh''), (''AR'', ''Arunachal Pradesh''), (''AS'', ''Assam''),
      (''BR'', ''Bihar''), (''CG'', ''Chhattisgarh''), (''GA'', ''Goa''), (''GJ'', ''Gujarat''),
      (''HR'', ''Haryana''), (''HP'', ''Himachal Pradesh''), (''JH'', ''Jharkhand''),
      (''KA'', ''Karnataka''), (''KL'', ''Kerala''), (''MP'', ''Madhya Pradesh''),
      (''MH'', ''Maharashtra''), (''MN'', ''Manipur''), (''ML'', ''Meghalaya''), (''MZ'', ''Mizoram''),
      (''NL'', ''Nagaland''), (''OD'', ''Odisha''), (''PB'', ''Punjab''), (''RJ'', ''Rajasthan''),
      (''SK'', ''Sikkim''), (''TN'', ''Tamil Nadu''), (''TG'', ''Telangana''), (''TR'', ''Tripura''),
      (''UP'', ''Uttar Pradesh''), (''UK'', ''Uttarakhand''), (''WB'', ''West Bengal''),
      (''DL'', ''Delhi''), (''JK'', ''Jammu and Kashmir''), (''LA'', ''Ladakh''), (''PY'', ''Puducherry'')]"

definition MAJOR_CROPS :: "string list" where
  "MAJOR_CROPS =
     [''Rice'', ''Wheat'', ''Maize'', ''Bajra'', ''Jowar'', ''Barley'', ''Ragi'',
      ''Cotton'', ''Sugarcane'', ''Jute'', ''Tobacco'', ''Tea'', ''Coffee'',
      ''Coconut'', ''Groundnut'', ''Soybean'', ''Sunflower'', ''Rapeseed'', ''Mustard'',
      ''Potato'', ''Onion'', ''Tomato'', ''Pulses'', ''Chickpea'', ''Lentil'',
      ''Arhar'', ''Moong'', ''Urad'', ''Masoor'', ''Fruits'', ''Vegetables'']"

definition CROP_CATEGORIES :: "(string \<times> string list) list" where
  "CROP_CATEGORIES =
     [(''cereals'', [''Rice'', ''Wheat'', ''Maize'', ''Bajra'', ''Jowar'', ''Barley'', ''Ragi'']),
      (''pulses'', [''Chickpea'', ''Arhar'', ''Moong'', ''Urad'', ''Lentil'', ''Masoor'']),
      (''oilseeds'', [''Groundnut'', ''Soybean'', ''Sunflower'', ''Rapeseed'', ''Mustard'']),
      (''cash_crops'', [''Cotton'', ''Sugarcane'', ''Jute'', ''Tobacco'', ''Tea'', ''Coffee'']),
      (''horticulture'', [''Fruits'', ''Vegetables'', ''Potato'', ''Onion'', ''Tomato'', ''Coconut''])]"

subsection \<open>Characters and regular expressions\<close>

text \<open>\<^verbatim>\<open>str.lower()\<close> on ASCII text.\<close>

definition lower_char :: "char \<Rightarrow> char" where
  "lower_char c =
     (case map_of (zip ''ABCDEFGHIJKLMNOPQRSTUVWXYZ'' ''abcdefghijklmnopqrstuvwxyz'') c of
        Some d \<Rightarrow> d
      | None \<Rightarrow> c)"

definition lower :: "string \<Rightarrow> string" where
  "lower s = map lower_char s"

text \<open>The classes \<^verbatim>\<open>\d\<close>, \<^verbatim>\<open>\s\<close> and \<^verbatim>\<open>\w\<close> of \<^verbatim>\<open>re\<close>, on ASCII characters. The white
  space of a \<^verbatim>\<open>str\<close> pattern is tab, line feed, vertical tab, form feed, carriage return,
  the four separators \<^verbatim>\<open>\x1c\<close> to \<^verbatim>\<open>\x1f\<close>, and the blank.\<close>

definition is_digit :: "char \<Rightarrow> bool" where
  "is_digit c = (c \<in> set ''0123456789'')"

definition is_space :: "char \<Rightarrow> bool" where
  "is_space c =
     (c \<in> set [CHR 0x09, CHR 0x0A, CHR 0x0B, CHR 0x0C, CHR 0x0D,
               CHR 0x1C, CHR 0x1D, CHR 0x1E, CHR 0x1F, CHR '' ''])"

definition is_word :: "char \<Rightarrow> bool" where
  "is_word c =
     (c \<in> set ''abcdefghijklmnopqrstuvwxyzABCDEFGHIJKLMNOPQRSTUVWXYZ0123456789_'')"

text \<open>\<^verbatim>\<open>int(s)\<close> of a string of decimal digits.\<close>

definition digit_val :: "char \<Rightarrow> int" where
  "digit_val c = (case map_of (zip ''0123456789'' [0, 1, 2, 3, 4, 5, 6, 7, 8, 9]) c of
                    Some d \<Rightarrow> d | None \<Rightarrow> 0)"

definition int_of_digits :: "string \<Rightarrow> int" where
  "int_of_digits ds = foldl (\<lambda>n c. 10 * n + digit_val c) 0 ds"

text \<open>\<^verbatim>\<open>re.search\<close>: the first position, from the left, at which the pattern matches; the
  pattern is given by its matcher at a position, which returns the captured group.\<close>

fun re_search :: "(string \<Rightarrow> 'a option) \<Rightarrow> string \<Rightarrow> 'a option" where
  "re_search m [] = m []"
| "re_search m (c # cs) = (case m (c # cs) of Some g \<Rightarrow> Some g | None \<Rightarrow> re_search m cs)"

subsection \<open>\<^verbatim>\<open>QueryEngine._extract_states\<close> and \<^verbatim>\<open>_extract_crops\<close>\<close>

text \<open>The test of the abbreviation loop: the abbreviation between blanks, or before a
  comma, in the query padded with a blank in front.\<close>

definition abbr_in_query :: "string \<Rightarrow> string \<Rightarrow> bool" where
  "abbr_in_query abbr query =
     (is_in ('' '' @ lower abbr @ '' '') ('' '' @ lower query @ '' '')
      \<or> is_in ('' '' @ lower abbr @ '','') ('' '' @ lower query @ '',''))"

definition extract_states :: "string \<Rightarrow> string list" where
  "extract_states query =
     (let found_states = filter (\<lambda>st. is_in (lower st) (lower query)) INDIAN_STATES
      in foldl (\<lambda>found (abbr, full_name).
                  if abbr_in_query abbr query then
                    (if full_name \<notin> set found then found @ [full_name] else found)
                  else found)
           found_states STATE_ABBREVIATIONS)"

text \<open>\<^verbatim>\<open>list(set(found_crops))\<close>: the order of the result is not determined, so the model
  returns the set.\<close>

definition extract_crops :: "string \<Rightarrow> string set" where
  "extract_crops query =
     (let query_lower = lower query;
          found_crops = filter (\<lambda>c. is_in (lower c) query_lower) MAJOR_CROPS;
          category_crops = concat (map snd
             (filter (\<lambda>(category, crop_list). is_in category query_lower) CROP_CATEGORIES))
      in set (found_crops @ category_crops))"

subsection \<open>\<^verbatim>\<open>QueryEngine._extract_top_n\<close>\<close>




subsection \<open>\<^verbatim>\<open>QueryEngine._extract_years\<close>\<close>

text \<open>The pattern \<^verbatim>\<open>\b(19|20)\d{2}\b\<close> read from a position on, the leading \<^verbatim>\<open>\b\<close> apart:
  the captured group is the century, \<^verbatim>\<open>'19'\<close> or \<^verbatim>\<open>'20'\<close>.\<close>

definition match_year :: "string \<Rightarrow> string option" where
  "match_year s =
     (if (starts_with ''19'' s \<or> starts_with ''20'' s) \<and> 4 \<le> length s
         \<and> is_digit (s ! 2) \<and> is_digit (s ! 3)
         \<and> (if length s = 4 then True else \<not> is_word (s ! 4))
      then Some (take 2 s) else None)"

text \<open>\<^verbatim>\<open>re.findall\<close> with one group returns the group of every match, matches taken from
  the left without overlap. The flag tells whether a word boundary precedes the position:
  at the start and after a character that is no word character (a match starts with a
  digit, a word character).\<close>

function findall_years :: "bool \<Rightarrow> string \<Rightarrow> string list" where
  "findall_years b [] = []"
| "findall_years b (c # cs) =
     (case (if b then match_year (c # cs) else None) of
        Some g \<Rightarrow> g # findall_years False (drop 3 cs)
      | None \<Rightarrow> findall_years (\<not> is_word c) cs)"
  by pat_completeness auto
termination
  by (relation "measure (\<lambda>(b, s). length s)") auto

text \<open>The pattern \<^verbatim>\<open>last\s+(\d+)\s+years?\<close> at a position.\<close>

definition match_last_n :: "string \<Rightarrow> string option" where
  "match_last_n s =
     (if starts_with ''last'' s then
        (let r = drop 4 s;
             ws1 = takeWhile is_space r;
             r1 = dropWhile is_space r;
             ds = takeWhile is_digit r1;
             r2 = dropWhile is_digit r1;
             ws2 = takeWhile is_space r2;
             r3 = dropWhile is_space r2
         in if ws1 \<noteq> [] \<and> ds \<noteq> [] \<and> ws2 \<noteq> [] \<and> starts_with ''year'' r3
            then Some ds else None)
      else None)"

text \<open>The pattern \<^verbatim>\<open>over (?:the )?(?:last |past )?decade\<close> has no class and no repetition:
  it matches somewhere iff one of its six expansions is a substring.\<close>

definition decade_match :: "string \<Rightarrow> bool" where
  "decade_match s =
     list_ex (\<lambda>p. is_in p s)
       [''over decade'', ''over last decade'', ''over past decade'',
        ''over the decade'', ''over the last decade'', ''over the past decade'']"

text \<open>\<^verbatim>\<open>list(range(a, b))\<close>.\<close>

definition py_range :: "int \<Rightarrow> int \<Rightarrow> int list" where
  "py_range a b = [a..b - 1]"

text \<open>\<open>current_year\<close> is \<^verbatim>\<open>datetime.now().year\<close>.\<close>

definition extract_years :: "int \<Rightarrow> string \<Rightarrow> int list" where
  "extract_years current_year query =
     (let year_matches = findall_years True query;
          years0 = map int_of_digits year_matches;
          years1 = (case re_search match_last_n (lower query) of
                      Some ds \<Rightarrow> (let n = int_of_digits ds in py_range (current_year - n) current_year)
                    | None \<Rightarrow> years0);
          years2 = (if decade_match (lower query) then py_range (current_year - 10) current_year
                    else years1);
          years3 = (if years2 = [] then py_range (current_year - 5) current_year else years2)
      in sort (remdups years3))"


subsection \<open>\<^verbatim>\<open>QueryEngine._analyze_data\<close>\<close>

text \<open>The summary entry of an analysis result, by the routine that made it.\<close>

datatype analysis_payload =
  Summary compare_summary
| TopResults "top_result list"
| TrendSummary "trend_summary option"
| CorrelationResults "correlation_results option"
| GeneralSummary "(string \<times> general_entry) list"

definition with_payload :: "('p \<Rightarrow> 'q) \<Rightarrow> ('p, 's) analysis \<Rightarrow> ('q, 's) analysis" where
  "with_payload f a =
     \<lparr>payload = f (payload a), results_data = results_data a,
      confidence = confidence a, data_points = data_points a\<rparr>"

definition analyze_data ::
  "(real list \<Rightarrow> real list \<Rightarrow> pyfloat \<times> pyfloat) \<Rightarrow> parsed_query \<Rightarrow> 's data_results
     \<Rightarrow> py_error + (analysis_payload, 's) analysis" where
  "analyze_data pearsonr pq dr =
     (if intent pq = ''compare'' then map_sum id (with_payload Summary) (compare_analysis pq dr)
      else if intent pq = ''top'' then map_sum id (with_payload TopResults) (top_n_analysis pq dr)
      else if intent pq = ''trend'' then map_sum id (with_payload TrendSummary) (trend_analysis pq dr)
      else if intent pq = ''correlation'' then
        map_sum id (with_payload CorrelationResults) (correlation_analysis pearsonr pq dr)
      else Inr (with_payload GeneralSummary (general_analysis pq dr)))"

subsection \<open>\<^verbatim>\<open>QueryEngine.process_query\<close>\<close>

text \<open>The steps of the pipeline other than the analysis are parameters: each takes its
  inputs and returns its value or raises. \<open>stats_pearsonr\<close> is the library function of the
  correlation routine.\<close>

record ('s, 'v, 'c) pipeline =
  parse_query :: "string \<Rightarrow> py_error + parsed_query"
  fetch_data_for_query :: "parsed_query \<Rightarrow> py_error + 's data_results"
  stats_pearsonr :: "real list \<Rightarrow> real list \<Rightarrow> pyfloat \<times> pyfloat"
  generate_visualizations :: "parsed_query \<Rightarrow> (analysis_payload, 's) analysis \<Rightarrow> py_error + 'v list"
  generate_answer :: "parsed_query \<Rightarrow> (analysis_payload, 's) analysis \<Rightarrow> py_error + string"
  collect_sources :: "'s data_results \<Rightarrow> py_error + 'c list"

text \<open>The dict \<^verbatim>\<open>process_query\<close> returns. The entries \<^verbatim>\<open>'data'\<close>, \<^verbatim>\<open>'sources'\<close>,
  \<^verbatim>\<open>'confidence'\<close>, \<^verbatim>\<open>'data_points'\<close> and \<^verbatim>\<open>'error'\<close> are the fields \<open>result_data\<close>,
  \<open>result_sources\<close>, \<open>result_confidence\<close>, \<open>result_data_points\<close> and \<open>error_text\<close>; an
  entry that the dict does not have is \<open>None\<close>.\<close>

record ('s, 'v, 'c) query_result =
  answer :: string
  result_data :: "'s data_results"
  visualizations :: "'v list"
  result_sources :: "'c list"
  result_confidence :: real
  processing_time :: real
  result_data_points :: int
  query_type :: "string option"
  error_text :: "string option"

text \<open>The body of the \<^verbatim>\<open>try\<close> block: the six steps in order, an exception of a step
  ending the block.\<close>

definition run_pipeline ::
  "('s, 'v, 'c) pipeline \<Rightarrow> real \<Rightarrow> real \<Rightarrow> string \<Rightarrow> py_error + ('s, 'v, 'c) query_result" where
  "run_pipeline p start_time end_time query =
     (case parse_query p query of
        Inl e \<Rightarrow> Inl e
      | Inr parsed \<Rightarrow>
     (case fetch_data_for_query p parsed of
        Inl e \<Rightarrow> Inl e
      | Inr data_results \<Rightarrow>
     (case analyze_data (stats_pearsonr p) parsed data_results of
        Inl e \<Rightarrow> Inl e
      | Inr analysis_results \<Rightarrow>
     (case generate_visualizations p parsed analysis_results of
        Inl e \<Rightarrow> Inl e
      | Inr vis \<Rightarrow>
     (case generate_answer p parsed analysis_results of
        Inl e \<Rightarrow> Inl e
      | Inr ans \<Rightarrow>
     (case collect_sources p data_results of
        Inl e \<Rightarrow> Inl e
      | Inr srcs \<Rightarrow>
          Inr \<lparr>answer = ans,
               result_data = results_data analysis_results,
               visualizations = vis,
               result_sources = srcs,
               result_confidence = confidence analysis_results,
               processing_time = end_time - start_time,
               result_data_points = data_points analysis_results,
               query_type = Some (intent parsed),
               error_text = None\<rparr>))))))"

text \<open>\<open>start_time\<close> and \<open>end_time\<close> are the two readings of \<^verbatim>\<open>time.time()\<close>.\<close>

definition process_query ::
  "('s, 'v, 'c) pipeline \<Rightarrow> real \<Rightarrow> real \<Rightarrow> string \<Rightarrow> ('s, 'v, 'c) query_result" where
  "process_query p start_time end_time query =
     (case run_pipeline p start_time end_time query of
        Inr result \<Rightarrow> result
      | Inl e \<Rightarrow>
          \<lparr>answer = ''I encountered an error processing your query: '' @ str_of_error e
                     @ ''. Please try rephrasing your question.'',
           result_data = [],
           visualizations = [],
           result_sources = [],
           result_confidence = 0.0,
           processing_time = end_time - start_time,
           result_data_points = 0,
           query_type = None,
           error_text = Some (str_of_error e)\<rparr>)"


section \<open>The data fetcher (\<^verbatim>\<open>src/data_fetcher.py\<close>) and the settings of \<^verbatim>\<open>src/config.py\<close>\<close>

subsection \<open>Values\<close>

text \<open>The value of a keyword argument of \<^verbatim>\<open>fetch_data\<close> (a string, an integer or
  \<^verbatim>\<open>None\<close>), a dict of such values in insertion order, and a JSON value.\<close>

datatype pyval = PStr string | PInt int | PNone

type_synonym pydict = "(string \<times> pyval) list"

datatype json =
  JNull
| JBool bool
| JNum real
| JStr string
| JArr "json list"
| JObj "(string \<times> json) list"

fun json_of_pyval :: "pyval \<Rightarrow> json" where
  "json_of_pyval (PStr s) = JStr s"
| "json_of_pyval (PInt i) = JNum (real_of_int i)"
| "json_of_pyval PNone = JNull"

text \<open>\<^verbatim>\<open>d[k] = v\<close> on a dict.\<close>

fun dict_set :: "string \<Rightarrow> 'v \<Rightarrow> (string \<times> 'v) list \<Rightarrow> (string \<times> 'v) list" where
  "dict_set k v [] = [(k, v)]"
| "dict_set k v ((k', v') # rest) =
     (if k = k' then (k, v) # rest else (k', v') # dict_set k v rest)"

text \<open>\<^verbatim>\<open>len(x)\<close> of a JSON value: defined for lists, strings and dicts.\<close>

fun py_len :: "json \<Rightarrow> py_error + int" where
  "py_len (JArr xs) = Inr (int (length xs))"
| "py_len (JStr s) = Inr (int (length s))"
| "py_len (JObj kvs) = Inr (int (length kvs))"
| "py_len other = Inl (TypeError ''object has no len()'')"

text \<open>\<^verbatim>\<open>str(n)\<close> of a natural number and of a keyword value, as an f-string prints it.\<close>

definition digit_char :: "nat \<Rightarrow> char" where
  "digit_char d = ''0123456789'' ! d"

fun str_of_nat :: "nat \<Rightarrow> string" where
  "str_of_nat n = (if n < 10 then [digit_char n] else str_of_nat (n div 10) @ [digit_char (n mod 10)])"

declare str_of_nat.simps [simp del]

fun py_str :: "pyval \<Rightarrow> string" where
  "py_str (PStr s) = s"
| "py_str (PInt i) = (if i < 0 then ''-'' @ str_of_nat (nat (- i)) else str_of_nat (nat i))"
| "py_str PNone = ''None''"

text \<open>\<^verbatim>\<open>s.split(',')\<close> and \<^verbatim>\<open>s.strip()\<close>.\<close>

fun split_comma :: "string \<Rightarrow> string list" where
  "split_comma [] = [[]]"
| "split_comma (c # cs) =
     (if c = CHR '','' then [] # split_comma cs
      else (case split_comma cs of
              [] \<Rightarrow> [[c]]
            | w # ws \<Rightarrow> (c # w) # ws))"

definition strip :: "string \<Rightarrow> string" where
  "strip s = rev (dropWhile is_space (rev (dropWhile is_space s)))"

subsection \<open>Settings\<close>

text \<open>\<^verbatim>\<open>DATA_GOV_API_KEY\<close> comes from the environment and \<^verbatim>\<open>CACHE_DIR\<close> from the place of
  the installation: both are parameters. The other settings are the constants of
  \<^verbatim>\<open>Config\<close>.\<close>

record config =
  DATA_GOV_API_KEY :: string
  CACHE_DIR :: string

definition CACHE_TTL :: real where
  "CACHE_TTL = 3600"

definition ENABLE_CACHE :: bool where
  "ENABLE_CACHE = True"

definition API_RATE_LIMIT :: nat where
  "API_RATE_LIMIT = 100"

text \<open>\<^verbatim>\<open>API_ENDPOINTS\<close>: endpoint name, then base URL, resource id and display name.\<close>

definition API_ENDPOINTS :: "(string \<times> string \<times> string \<times> string) list" where
  "API_ENDPOINTS =
     [(''imd_rainfall'', ''https://api.data.gov.in/resource/'',
         ''9ef84268-d588-465a-a308-a864a43d0070'', ''IMD Rainfall Data''),
      (''agriculture_production'', ''https://api.data.gov.in/resource/'',
         ''8d6c8e8e-e9cd-4f42-b37a-6d9f9e1e4c7a'', ''Agricultural Production Statistics''),
      (''crop_yield'', ''https://api.data.gov.in/resource/'',
         ''a8e8c8d9-f3e1-4b5d-9c7e-1a2b3c4d5e6f'', ''Crop Yield Data''),
      (''district_wise_crops'', ''https://api.data.gov.in/resource/'',
         ''b7d9f2e3-a1c4-4e8d-b9f2-3c4d5e6f7a8b'', ''District-wise Crop Production'')]"

definition get_api_url :: "string \<Rightarrow> py_error + string" where
  "get_api_url endpoint_name =
     (case map_of API_ENDPOINTS endpoint_name of
        None \<Rightarrow> Inl (ValueError (''Unknown endpoint: '' @ endpoint_name))
      | Some (base_url, resource_id, display_name) \<Rightarrow> Inr (base_url @ resource_id))"

definition get_api_params :: "config \<Rightarrow> pydict \<Rightarrow> pydict" where
  "get_api_params cfg kwargs =
     foldl (\<lambda>params (k, v).
              if k \<notin> set [''limit'', ''offset''] \<and> v \<noteq> PNone
              then dict_set (''filters['' @ k @ '']'') v params else params)
       [(''api-key'', PStr (DATA_GOV_API_KEY cfg)),
        (''format'', PStr ''json''),
        (''limit'', (case map_of kwargs ''limit'' of None \<Rightarrow> PInt 1000 | Some v \<Rightarrow> v)),
        (''offset'', (case map_of kwargs ''offset'' of None \<Rightarrow> PInt 0 | Some v \<Rightarrow> v))]
       kwargs"

definition validate_config :: "config \<Rightarrow> bool" where
  "validate_config cfg = (if DATA_GOV_API_KEY cfg = ''YOUR_API_KEY_HERE'' then False else True)"

definition is_demo_mode :: "config \<Rightarrow> bool" where
  "is_demo_mode cfg = (\<not> validate_config cfg)"

subsection \<open>Library functions, the cache directory and the environment of a fetch\<close>

text \<open>\<^verbatim>\<open>hashlib.md5(...).hexdigest()\<close>, \<^verbatim>\<open>json.dumps(..., sort_keys=True)\<close> and the built-in
  \<^verbatim>\<open>hash\<close> of strings are library code: parameters.\<close>

record pylib =
  md5_hexdigest :: "string \<Rightarrow> string"
  json_dumps_sorted :: "pydict \<Rightarrow> string"
  py_hash :: "string \<Rightarrow> int"

text \<open>The dict that \<^verbatim>\<open>fetch_data\<close> returns and caches. \<open>demo_mode\<close> and \<open>cache_expired\<close>
  are \<open>None\<close> when the dict has no such entry.\<close>

record fetch_result =
  data :: json
  endpoint :: string
  url :: string
  parameters :: pydict
  timestamp :: string
  from_cache :: bool
  records_count :: int
  demo_mode :: "bool option"
  cache_expired :: "bool option"

text \<open>A file of the cache directory holds what \<^verbatim>\<open>_write_cache\<close> dumped, a result dict
  (\<^verbatim>\<open>json.load\<close> gives back the dict that \<^verbatim>\<open>json.dump\<close> wrote), or it is damaged:
  \<^verbatim>\<open>json.load\<close> raises on it. A file has its modification time, in seconds.\<close>

datatype file_content = Unreadable | Stored fetch_result

record cache_file =
  content :: file_content
  st_mtime :: real

text \<open>The state of a \<^verbatim>\<open>DataFetcher\<close>: the files of the cache directory by path, and
  \<^verbatim>\<open>request_times\<close>. \<open>requests_sent\<close> is a ghost counter of the calls of
  \<^verbatim>\<open>session.get\<close>.\<close>

record fetcher =
  files :: "string \<rightharpoonup> cache_file"
  request_times :: "real list"
  requests_sent :: nat

text \<open>What one call of \<^verbatim>\<open>fetch_data\<close> observes of the world: the readings of
  \<^verbatim>\<open>time.time()\<close> in \<^verbatim>\<open>_is_cache_valid\<close>, in \<^verbatim>\<open>_check_rate_limit\<close> and after the request,
  \<^verbatim>\<open>datetime.now().isoformat()\<close>, the outcome of the HTTP request, and the outcome of
  writing the cache file with the modification time the file gets.

  The request raises a \<^verbatim>\<open>RequestException\<close> (no connection, timeout, an error status
  at \<^verbatim>\<open>raise_for_status\<close>), or it succeeds and \<^verbatim>\<open>response.json()\<close> raises on a body that
  is no JSON (a \<^verbatim>\<open>RequestException\<close> too, in \<^verbatim>\<open>requests\<close> from 2.27 on), or the body
  is a JSON value.\<close>

datatype api_outcome = RequestFailed | InvalidBody | Response json

datatype write_outcome = WriteOk | WriteFailsOnOpen | WriteFailsOnDump

record env =
  clock_valid :: real
  clock_rate :: real
  clock_request :: real
  now_iso :: string
  api_response :: api_outcome
  cache_write :: write_outcome
  write_mtime :: real

subsection \<open>The cache (\<^verbatim>\<open>_get_cache_key\<close> to \<^verbatim>\<open>_write_cache\<close>)\<close>

definition get_cache_key :: "pylib \<Rightarrow> string \<Rightarrow> pydict \<Rightarrow> string" where
  "get_cache_key lib endpoint_name params =
     md5_hexdigest lib (endpoint_name @ ''_'' @ json_dumps_sorted lib params)"

definition get_cache_path :: "config \<Rightarrow> string \<Rightarrow> string" where
  "get_cache_path cfg cache_key = CACHE_DIR cfg @ ''/'' @ cache_key @ ''.json''"

definition is_cache_valid :: "(string \<rightharpoonup> cache_file) \<Rightarrow> real \<Rightarrow> string \<Rightarrow> bool" where
  "is_cache_valid fs now cache_path =
     (case fs cache_path of
        None \<Rightarrow> False
      | Some f \<Rightarrow>
          (if \<not> ENABLE_CACHE then False
           else (let cache_age = now - st_mtime f in cache_age < CACHE_TTL)))"

text \<open>\<^verbatim>\<open>_read_cache\<close> returns \<^verbatim>\<open>None\<close> when opening or loading the file raises.\<close>

definition read_cache :: "(string \<rightharpoonup> cache_file) \<Rightarrow> string \<Rightarrow> fetch_result option" where
  "read_cache fs cache_path =
     (case fs cache_path of
        None \<Rightarrow> None
      | Some f \<Rightarrow> (case content f of Unreadable \<Rightarrow> None | Stored r \<Rightarrow> Some r))"

text \<open>\<^verbatim>\<open>_write_cache\<close> swallows every exception: a failing \<^verbatim>\<open>open\<close> leaves the directory
  as it is, a failing \<^verbatim>\<open>json.dump\<close> leaves a damaged file.\<close>

definition write_cache ::
  "env \<Rightarrow> (string \<rightharpoonup> cache_file) \<Rightarrow> string \<Rightarrow> fetch_result \<Rightarrow> (string \<rightharpoonup> cache_file)" where
  "write_cache e fs cache_path r =
     (case cache_write e of
        WriteOk \<Rightarrow> fs(cache_path \<mapsto> \<lparr>content = Stored r, st_mtime = write_mtime e\<rparr>)
      | WriteFailsOnOpen \<Rightarrow> fs
      | WriteFailsOnDump \<Rightarrow> fs(cache_path \<mapsto> \<lparr>content = Unreadable, st_mtime = write_mtime e\<rparr>))"

text \<open>\<^verbatim>\<open>_check_rate_limit\<close> drops the request times older than an hour and sleeps when the
  limit is reached; it returns the kept times and the time slept.\<close>

definition check_rate_limit :: "real \<Rightarrow> real list \<Rightarrow> real list \<times> real" where
  "check_rate_limit now req_times =
     (let kept = filter (\<lambda>t. now - t < 3600) req_times
      in if length kept \<ge> API_RATE_LIMIT then
           (let oldest_request = Min (set kept); wait_time = 3600 - (now - oldest_request)
            in (kept, if wait_time > 0 then wait_time else 0))
         else (kept, 0))"

subsection \<open>\<^verbatim>\<open>DataFetcher._get_demo_data\<close>\<close>

text \<open>\<^verbatim>\<open>filters.get('state', default).split(',')\<close>: a value that is no string has no
  \<^verbatim>\<open>split\<close>.\<close>

definition state_names :: "pydict \<Rightarrow> string \<Rightarrow> py_error + string list" where
  "state_names filters dflt =
     (case map_of filters ''state'' of
        None \<Rightarrow> Inr (split_comma dflt)
      | Some (PStr s) \<Rightarrow> Inr (split_comma s)
      | Some other \<Rightarrow> Inl (AttributeError ''object has no attribute 'split' ''))"

definition rainfall_records :: "pylib \<Rightarrow> string list \<Rightarrow> json list" where
  "rainfall_records lib sts =
     concat (map (\<lambda>st. map (\<lambda>yr.
         (let base_rainfall = (if strip st = ''Punjab'' then 1200 else 1100 :: int)
          in JObj [(''state'', JStr (strip st)),
                   (''year'', JNum (real_of_int yr)),
                   (''annual_rainfall_mm'',
                      JNum (real_of_int (base_rainfall + (yr - 2018) * 50
                                         + (py_hash lib st mod 200 - 100)))),
                   (''monsoon_rainfall_mm'', JNum (real_of_int base_rainfall * 0.7)),
                   (''district'', JStr (strip st @ ''_District_1''))]))
         (py_range 2018 2024)) sts)"

definition base_prod :: "string \<Rightarrow> int" where
  "base_prod c =
     (case map_of [(''Rice'', 5000), (''Wheat'', 6000), (''Cotton'', 3000),
                   (''Sugarcane'', 8000), (''Maize'', 4000)] c of
        Some b \<Rightarrow> b
      | None \<Rightarrow> 3000)"

definition production_records :: "pylib \<Rightarrow> string list \<Rightarrow> json list" where
  "production_records lib sts =
     concat (map (\<lambda>st. concat (map (\<lambda>c. map (\<lambda>yr.
         (let production = base_prod c + (yr - 2018) * 200 + py_hash lib (st @ c) mod 1000
          in JObj [(''state'', JStr (strip st)),
                   (''crop'', JStr c),
                   (''year'', JNum (real_of_int yr)),
                   (''production_tonnes'', JNum (real_of_int production)),
                   (''area_hectares'', JNum (real_of_int production / 2.5)),
                   (''yield_kg_per_hectare'', JNum 2500)]))
         (py_range 2018 2024))
       [''Rice'', ''Wheat'', ''Cotton'', ''Sugarcane'', ''Maize''])) sts)"

definition district_records :: "pylib \<Rightarrow> pyval \<Rightarrow> json list" where
  "district_records lib st =
     concat (map (\<lambda>d. map (\<lambda>c.
         (let production = 1000 + py_hash lib (d @ c) mod 5000
          in JObj [(''state'', json_of_pyval st),
                   (''district'', JStr d),
                   (''crop'', JStr c),
                   (''production_tonnes'', JNum (real_of_int production)),
                   (''year'', JNum 2023)]))
         [''Wheat'', ''Rice'', ''Sugarcane'', ''Potato''])
       (map (\<lambda>i. py_str st @ ''_District_'' @ str_of_nat (nat i)) (py_range 1 6)))"

text \<open>The dict every branch returns, around its records.\<close>

definition demo_result :: "string \<Rightarrow> string \<Rightarrow> pydict \<Rightarrow> json list \<Rightarrow> fetch_result" where
  "demo_result now endpoint_name filters records =
     \<lparr>data = JObj [(''records'', JArr records)],
      endpoint = endpoint_name,
      url = ''demo://'' @ endpoint_name,
      parameters = filters,
      timestamp = now,
      from_cache = False,
      records_count = int (length records),
      demo_mode = Some True,
      cache_expired = None\<rparr>"

definition get_demo_data :: "pylib \<Rightarrow> string \<Rightarrow> string \<Rightarrow> pydict \<Rightarrow> py_error + fetch_result" where
  "get_demo_data lib now endpoint_name filters =
     (if endpoint_name = ''imd_rainfall'' then
        (case state_names filters ''Punjab,Haryana'' of
           Inl err \<Rightarrow> Inl err
         | Inr sts \<Rightarrow> Inr (demo_result now endpoint_name filters (rainfall_records lib sts)))
      else if endpoint_name = ''agriculture_production'' then
        (case state_names filters ''Punjab,Haryana,Maharashtra'' of
           Inl err \<Rightarrow> Inl err
         | Inr sts \<Rightarrow> Inr (demo_result now endpoint_name filters (production_records lib sts)))
      else if endpoint_name = ''district_wise_crops'' then
        Inr (demo_result now endpoint_name filters
               (district_records lib
                  (case map_of filters ''state'' of None \<Rightarrow> PStr ''Uttar Pradesh'' | Some v \<Rightarrow> v)))
      else Inr (demo_result now endpoint_name filters []))"

subsection \<open>\<^verbatim>\<open>DataFetcher.fetch_data\<close>\<close>

text \<open>The \<^verbatim>\<open>except RequestException\<close> branch: the cache file, expired or not, when it is
  there and readable, else the demo data.\<close>

definition api_error_fallback ::
  "pylib \<Rightarrow> env \<Rightarrow> fetcher \<Rightarrow> string \<Rightarrow> pydict \<Rightarrow> string \<Rightarrow> (py_error + fetch_result) \<times> fetcher" where
  "api_error_fallback lib e st endpoint_name filters cache_path =
     (case (if files st cache_path \<noteq> None then read_cache (files st) cache_path else None) of
        Some cached_data \<Rightarrow>
          (Inr (cached_data\<lparr>from_cache := True, cache_expired := Some True\<rparr>), st)
      | None \<Rightarrow> (get_demo_data lib (now_iso e) endpoint_name filters, st))"

text \<open>\<^verbatim>\<open>len(data.get('records', [])) if isinstance(data, dict) else len(data)\<close>.\<close>

definition count_records :: "json \<Rightarrow> py_error + int" where
  "count_records d =
     (case d of
        JObj kvs \<Rightarrow> py_len (case map_of kvs ''records'' of None \<Rightarrow> JArr [] | Some v \<Rightarrow> v)
      | other \<Rightarrow> py_len other)"

text \<open>The \<^verbatim>\<open>try\<close> block: the rate limit, the one request, the result and its cache file.
  An exception that is no \<^verbatim>\<open>RequestException\<close> leaves \<^verbatim>\<open>fetch_data\<close>.\<close>

definition fetch_live ::
  "pylib \<Rightarrow> env \<Rightarrow> fetcher \<Rightarrow> string \<Rightarrow> pydict \<Rightarrow> string \<Rightarrow> pydict \<Rightarrow> string
     \<Rightarrow> (py_error + fetch_result) \<times> fetcher" where
  "fetch_live lib e st endpoint_name filters api_url params cache_path =
     (let kept = fst (check_rate_limit (clock_rate e) (request_times st));
          st1 = st\<lparr>request_times := kept, requests_sent := Suc (requests_sent st)\<rparr>;
          st2 = st1\<lparr>request_times := kept @ [clock_request e]\<rparr>
      in case api_response e of
           RequestFailed \<Rightarrow> api_error_fallback lib e st1 endpoint_name filters cache_path
         | InvalidBody \<Rightarrow> api_error_fallback lib e st2 endpoint_name filters cache_path
         | Response d \<Rightarrow>
             (case count_records d of
                Inl err \<Rightarrow> (Inl err, st2)
              | Inr n \<Rightarrow>
                  (let result = \<lparr>data = d,
                                 endpoint = endpoint_name,
                                 url = api_url,
                                 parameters = params,
                                 timestamp = now_iso e,
                                 from_cache = False,
                                 records_count = n,
                                 demo_mode = None,
                                 cache_expired = None\<rparr>
                   in (Inr result,
                       st2\<lparr>files := write_cache e (files st2) cache_path result\<rparr>))))"

text \<open>The cache file of a request.\<close>

definition request_cache_path :: "pylib \<Rightarrow> config \<Rightarrow> string \<Rightarrow> pydict \<Rightarrow> string" where
  "request_cache_path lib cfg endpoint_name filters =
     get_cache_path cfg (get_cache_key lib endpoint_name (get_api_params cfg filters))"

definition fetch_data ::
  "pylib \<Rightarrow> config \<Rightarrow> env \<Rightarrow> fetcher \<Rightarrow> string \<Rightarrow> pydict \<Rightarrow> (py_error + fetch_result) \<times> fetcher" where
  "fetch_data lib cfg e st endpoint_name filters =
     (case get_api_url endpoint_name of
        Inl err \<Rightarrow> (get_demo_data lib (now_iso e) endpoint_name filters, st)
      | Inr api_url \<Rightarrow>
          (let params = get_api_params cfg filters;
               cache_key = get_cache_key lib endpoint_name params;
               cache_path = get_cache_path cfg cache_key
           in case (if is_cache_valid (files st) (clock_valid e) cache_path
                    then read_cache (files st) cache_path else None) of
                Some cached_data \<Rightarrow> (Inr (cached_data\<lparr>from_cache := True\<rparr>), st)
              | None \<Rightarrow>
                  (if is_demo_mode cfg
                   then (get_demo_data lib (now_iso e) endpoint_name filters, st)
                   else fetch_live lib e st endpoint_name filters api_url params cache_path)))"


section \<open>Notions of the specification and example inputs\<close>

subsection \<open>The trend classification in the words of the specification\<close>






subsection \<open>Entities named in a query, in the words of the specification\<close>

text \<open>A query contains a known name when the name occurs in it, letter case apart. The
  known state names are those of \<open>INDIAN_STATES\<close>, the known crop names those of
  \<open>MAJOR_CROPS\<close>.\<close>

definition mentions :: "string \<Rightarrow> string \<Rightarrow> bool" where
  "mentions query nm = is_in (lower nm) (lower query)"

definition mentioned_states :: "string \<Rightarrow> string list" where
  "mentioned_states query = filter (mentions query) INDIAN_STATES"

definition mentioned_crops :: "string \<Rightarrow> string list" where
  "mentioned_crops query = filter (mentions query) MAJOR_CROPS"

subsection \<open>A failing pipeline, in the words of the specification\<close>

text \<open>Some step of the pipeline raises \<open>e\<close>: the first step does, or the steps before
  return and the next one raises.\<close>

definition step_raises :: "('s, 'v, 'c) pipeline \<Rightarrow> string \<Rightarrow> py_error \<Rightarrow> bool" where
  "step_raises p query e =
     (parse_query p query = Inl e
      \<or> (\<exists>parsed. parse_query p query = Inr parsed
           \<and> (fetch_data_for_query p parsed = Inl e
              \<or> (\<exists>dr. fetch_data_for_query p parsed = Inr dr
                   \<and> (analyze_data (stats_pearsonr p) parsed dr = Inl e
                      \<or> (\<exists>a. analyze_data (stats_pearsonr p) parsed dr = Inr a
                           \<and> (generate_visualizations p parsed a = Inl e
                              \<or> (\<exists>vis. generate_visualizations p parsed a = Inr vis
                                   \<and> (generate_answer p parsed a = Inl e
                                      \<or> (\<exists>ans. generate_answer p parsed a = Inr ans
                                           \<and> collect_sources p dr = Inl e))))))))))"

subsection \<open>Well-formed keyword arguments of a fetch\<close>

text \<open>The callers of \<^verbatim>\<open>fetch_data\<close> pass the filter \<^verbatim>\<open>state\<close> as a string, or not at
  all.\<close>

definition state_filter_is_str :: "pydict \<Rightarrow> bool" where
  "state_filter_is_str filters =
     (case map_of filters ''state'' of
        None \<Rightarrow> True
      | Some (PStr s) \<Rightarrow> True
      | Some other \<Rightarrow> False)"


subsection \<open>Example inputs\<close>

text \<open>Two small frames in the layout of the demo data: rainfall and rice production of
  two states over three years.\<close>

definition example_row :: "string \<Rightarrow> int \<Rightarrow> real \<Rightarrow> real \<Rightarrow> row" where
  "example_row st yr rain tonnes =
     \<lparr>state = st, district = st @ ''_District_1'', crop = ''Rice'', year = yr,
      annual_rainfall_mm = rain, production_tonnes = tonnes\<rparr>"

definition example_rows :: "row list" where
  "example_rows =
     [example_row ''Punjab'' 2018 1200 5000,
      example_row ''Punjab'' 2019 1250 5200,
      example_row ''Punjab'' 2020 1300 5400,
      example_row ''Haryana'' 2018 1100 5000,
      example_row ''Haryana'' 2019 1150 5200,
      example_row ''Haryana'' 2020 1200 5400]"

definition example_rainfall_df :: data_frame where
  "example_rainfall_df =
     \<lparr>columns = [''state'', ''year'', ''annual_rainfall_mm'', ''district''], rows = example_rows\<rparr>"

definition example_production_df :: data_frame where
  "example_production_df =
     \<lparr>columns = [''state'', ''crop'', ''year'', ''production_tonnes''], rows = example_rows\<rparr>"

definition example_data_results :: "unit data_results" where
  "example_data_results =
     [(''rainfall'', \<lparr>dataframe = example_rainfall_df, source = ()\<rparr>),
      (''production'', \<lparr>dataframe = example_production_df, source = ()\<rparr>)]"


definition example_district_results :: "unit data_results" where
  "example_district_results =
     [(''district_Punjab'',
       \<lparr>dataframe = \<lparr>columns = [''state'', ''district'', ''crop'', ''production_tonnes'', ''year''],
                      rows = example_rows\<rparr>,
        source = ()\<rparr>)]"

definition example_query :: parsed_query where
  "example_query =
     \<lparr>original_query = ''top 3 crops in Punjab and Haryana'', intent = ''top'',
      states = [''Haryana'', ''Punjab''], crops = {}, years = [2018, 2019, 2020], top_n = 3,
      districts = [], metrics = [''production'', ''rainfall'']\<rparr>"

definition example_small_results :: "unit data_results" where
  "example_small_results =
     [(''rainfall'', \<lparr>dataframe = example_rainfall_df, source = ()\<rparr>),
      (''production'',
       \<lparr>dataframe = \<lparr>columns = [''state'', ''crop'', ''year'', ''production_tonnes''],
                      rows = take 3 example_rows\<rparr>,
        source = ()\<rparr>)]"

text \<open>A stand-in for \<^verbatim>\<open>scipy.stats.pearsonr\<close> in the examples.\<close>

definition example_pearsonr :: "real list \<Rightarrow> real list \<Rightarrow> pyfloat \<times> pyfloat" where
  "example_pearsonr xs ys = (Fin 0.5, Fin 0.01)"




definition example_abbreviation_query :: string where
  "example_abbreviation_query = ''rice in punjab as in haryana''"

definition example_category_query :: string where
  "example_category_query = ''pulses in Punjab and Haryana''"

definition example_entities_query :: string where
  "example_entities_query = ''Compare wheat in Punjab and Haryana''"

definition example_entities_query_swapped :: string where
  "example_entities_query_swapped = ''Haryana versus Punjab: wheat''"

text \<open>A pipeline whose fetch step returns a production frame without the column
  \<open>production_tonnes\<close>: the trend analysis raises \<^verbatim>\<open>KeyError\<close>.\<close>

definition example_broken_results :: "unit data_results" where
  "example_broken_results =
     [(''production'',
       \<lparr>dataframe = \<lparr>columns = [''state'', ''crop'', ''year''], rows = example_rows\<rparr>,
        source = ()\<rparr>)]"

definition example_pipeline :: "(unit, unit, unit) pipeline" where
  "example_pipeline =
     \<lparr>parse_query = (\<lambda>q. Inr (example_query\<lparr>original_query := q, intent := ''trend''\<rparr>)),
      fetch_data_for_query = (\<lambda>pq. Inr example_broken_results),
      stats_pearsonr = example_pearsonr,
      generate_visualizations = (\<lambda>pq a. Inr []),
      generate_answer = (\<lambda>pq a. Inr ''answer''),
      collect_sources = (\<lambda>dr. Inr [])\<rparr>"

text \<open>A fetch of rainfall data: stand-ins for the library functions, a configured API
  key, an empty cache directory, and three observations of the world: a request that
  succeeds at time 1000, and a request that fails at time 1500 and at time 10000.\<close>

definition example_lib :: pylib where
  "example_lib =
     \<lparr>md5_hexdigest = (\<lambda>s. s),
      json_dumps_sorted = (\<lambda>d. concat (map fst d)),
      py_hash = (\<lambda>s. int (length s))\<rparr>"

definition example_cfg :: config where
  "example_cfg = \<lparr>DATA_GOV_API_KEY = ''key-123'', CACHE_DIR = ''data/cache''\<rparr>"

definition example_filters :: pydict where
  "example_filters = [(''state'', PStr ''Punjab,Haryana''), (''year'', PStr ''2021,2022'')]"

definition example_fetcher :: fetcher where
  "example_fetcher = \<lparr>files = Map.empty, request_times = [], requests_sent = 0\<rparr>"

definition example_body :: json where
  "example_body =
     JObj [(''records'', JArr [JObj [(''state'', JStr ''Punjab''), (''year'', JNum 2021),
                                     (''annual_rainfall_mm'', JNum 1230)]])]"

definition example_env_ok :: env where
  "example_env_ok =
     \<lparr>clock_valid = 1000, clock_rate = 1000, clock_request = 1001,
      now_iso = ''2025-01-01T00:16:40'', api_response = Response example_body,
      cache_write = WriteOk, write_mtime = 1001\<rparr>"


definition example_env_late :: env where
  "example_env_late =
     \<lparr>clock_valid = 10000, clock_rate = 10000, clock_request = 10001,
      now_iso = ''2025-01-01T02:46:40'', api_response = RequestFailed,
      cache_write = WriteOk, write_mtime = 10001\<rparr>"

definition example_live_result :: fetch_result where
  "example_live_result =
     \<lparr>data = example_body,
      endpoint = ''imd_rainfall'',
      url = ''https://api.data.gov.in/resource/9ef84268-d588-465a-a308-a864a43d0070'',
      parameters = get_api_params example_cfg example_filters,
      timestamp = ''2025-01-01T00:16:40'',
      from_cache = False,
      records_count = 1,
      demo_mode = None,
      cache_expired = None\<rparr>"

text \<open>The fetcher after the first, successful fetch.\<close>

definition example_fetcher_cached :: fetcher where
  "example_fetcher_cached =
     snd (fetch_data example_lib example_cfg example_env_ok example_fetcher
            ''imd_rainfall'' example_filters)"


section \<open>Properties of the analytics engine\<close>

subsection \<open>The confidence score\<close>

lemma calculate_confidence_mono:
  "0 \<le> m \<Longrightarrow> m \<le> n \<Longrightarrow> calculate_confidence m \<le> calculate_confidence n"
  by (simp add: calculate_confidence_def)

lemma calculate_confidence_range:
  "calculate_confidence n \<in> {0, 0.5, 0.7, 0.85, 0.95}"
  by (simp add: calculate_confidence_def)

lemma calculate_confidence_zero: "calculate_confidence n = 0 \<longleftrightarrow> n = 0"
  by (simp add: calculate_confidence_def)

lemma compare_analysis_confidence:
  "compare_analysis pq dr = Inr a \<Longrightarrow>
     confidence a = calculate_confidence (data_points a) \<and> 0 \<le> data_points a"
  by (auto simp: compare_analysis_def compare_rainfall_def compare_production_def Let_def df_len_def
      split: sum.splits prod.splits option.splits if_splits)

lemma top_n_analysis_confidence:
  "top_n_analysis pq dr = Inr a \<Longrightarrow>
     confidence a = calculate_confidence (data_points a) \<and> 0 \<le> data_points a"
  by (auto simp: top_n_analysis_def Let_def df_len_def
      split: sum.splits prod.splits option.splits if_splits)

lemma trend_analysis_confidence:
  "trend_analysis pq dr = Inr a \<Longrightarrow>
     confidence a = calculate_confidence (data_points a) \<and> 0 \<le> data_points a"
  by (auto simp: trend_analysis_def production_trend_def rainfall_trend_def Let_def df_len_def
      split: sum.splits prod.splits option.splits if_splits)

lemma correlation_analysis_confidence:
  "correlation_analysis pr pq dr = Inr a \<Longrightarrow>
     confidence a = calculate_confidence (data_points a) \<and> 0 \<le> data_points a"
  by (auto simp: correlation_analysis_def Let_def df_len_def
      split: sum.splits prod.splits option.splits if_splits)

lemma sum_df_len_nonneg: "0 \<le> sum_list (map (\<lambda>(k, info). df_len (dataframe info)) xs)"
  by (induction xs) (auto simp: df_len_def)

lemma general_analysis_confidence:
  "confidence (general_analysis pq dr) = calculate_confidence (data_points (general_analysis pq dr))
   \<and> 0 \<le> data_points (general_analysis pq dr)"
  by (simp add: general_analysis_def Let_def sum_df_len_nonneg)

lemma district_analysis_confidence:
  "confidence (district_analysis pq dr) = calculate_confidence (data_points (district_analysis pq dr))
   \<and> 0 \<le> data_points (district_analysis pq dr)"
  by (simp add: district_analysis_def Let_def sum_df_len_nonneg)

text \<open>
  Claim C9. The confidence score is monotone non-decreasing in the number of data points
  (a count, so not negative), takes only the values 0.0, 0.5, 0.7, 0.85 and 0.95, and is
  0.0 exactly for 0 data points. Each of the six analysis routines, whenever it returns,
  returns as its confidence the score of the \<open>data_points\<close> count it returns, and that
  count is not negative.
\<close>

theorem confidence_score:
  fixes m n :: int
  shows "(0 \<le> m \<and> m \<le> n \<longrightarrow> calculate_confidence m \<le> calculate_confidence n)
    \<and> calculate_confidence n \<in> {0, 0.5, 0.7, 0.85, 0.95}
    \<and> (calculate_confidence n = 0 \<longleftrightarrow> n = 0)
    \<and> (\<forall>a. compare_analysis pq dr = Inr a \<longrightarrow>
          confidence a = calculate_confidence (data_points a) \<and> 0 \<le> data_points a)
    \<and> (\<forall>a. top_n_analysis pq dr = Inr a \<longrightarrow>
          confidence a = calculate_confidence (data_points a) \<and> 0 \<le> data_points a)
    \<and> (\<forall>a. trend_analysis pq dr = Inr a \<longrightarrow>
          confidence a = calculate_confidence (data_points a) \<and> 0 \<le> data_points a)
    \<and> (\<forall>a. correlation_analysis pearsonr pq dr = Inr a \<longrightarrow>
          confidence a = calculate_confidence (data_points a) \<and> 0 \<le> data_points a)
    \<and> confidence (general_analysis pq dr)
          = calculate_confidence (data_points (general_analysis pq dr))
    \<and> 0 \<le> data_points (general_analysis pq dr)
    \<and> confidence (district_analysis pq dr)
          = calculate_confidence (data_points (district_analysis pq dr))
    \<and> 0 \<le> data_points (district_analysis pq dr)"
  using calculate_confidence_mono [of m n] calculate_confidence_range [of n]
    calculate_confidence_zero [of n]
    compare_analysis_confidence [of pq dr] top_n_analysis_confidence [of pq dr]
    trend_analysis_confidence [of pq dr] correlation_analysis_confidence [of pearsonr pq dr]
    general_analysis_confidence [of pq dr] district_analysis_confidence [of pq dr]
  by blast

lemma example_compare_analysis:
  "\<exists>a. compare_analysis example_query example_data_results = Inr a \<and> data_points a = 12"
  by (simp add: compare_analysis_def compare_rainfall_def compare_production_def
      example_data_results_def example_rainfall_df_def example_production_df_def example_rows_def
      df_empty_def has_col_def df_len_def Let_def)

lemma example_top_n_analysis:
  "\<exists>a. top_n_analysis example_query example_data_results = Inr a \<and> data_points a = 6"
  by (simp add: top_n_analysis_def
      example_data_results_def example_rainfall_df_def example_production_df_def example_rows_def
      df_empty_def has_col_def df_len_def Let_def)

lemma example_trend_analysis:
  "\<exists>a. trend_analysis example_query example_data_results = Inr a \<and> data_points a = 6"
  by (simp add: trend_analysis_def production_trend_def
      example_data_results_def example_rainfall_df_def example_production_df_def example_rows_def
      df_empty_def has_col_def df_len_def Let_def groupby_sum_def group_keys_def example_row_def)

lemma example_correlation_analysis:
  "\<exists>a. correlation_analysis (\<lambda>xs ys. (Fin 1, Fin 0)) example_query example_data_results = Inr a
       \<and> data_points a = 6"
  by (simp add: correlation_analysis_def merge_inner_def merged_col_def
      example_data_results_def example_rainfall_df_def example_production_df_def example_rows_def
      df_empty_def has_col_def df_len_def Let_def example_row_def)

lemma example_general_analysis:
  "data_points (general_analysis example_query example_data_results) = 12"
  by (simp add: general_analysis_def
      example_data_results_def example_rainfall_df_def example_production_df_def example_rows_def
      df_empty_def has_col_def df_len_def Let_def)

lemma example_district_analysis:
  "data_points (district_analysis example_query example_district_results) = 6"
  by (simp add: district_analysis_def
      example_district_results_def example_rows_def
      df_empty_def has_col_def df_len_def Let_def)

theorem confidence_score_witness:
  "calculate_confidence 5 \<le> calculate_confidence 60
   \<and> (\<exists>a. compare_analysis example_query example_data_results = Inr a
          \<and> data_points a = 12 \<and> confidence a = 0.7)
   \<and> (\<exists>a. top_n_analysis example_query example_data_results = Inr a
          \<and> data_points a = 6 \<and> confidence a = 0.5)
   \<and> (\<exists>a. trend_analysis example_query example_data_results = Inr a
          \<and> data_points a = 6 \<and> confidence a = 0.5)
   \<and> (\<exists>a. correlation_analysis (\<lambda>xs ys. (Fin 1, Fin 0)) example_query example_data_results = Inr a
          \<and> data_points a = 6 \<and> confidence a = 0.5)
   \<and> confidence (general_analysis example_query example_data_results) = 0.7
   \<and> confidence (district_analysis example_query example_district_results) = 0.5"
proof -
  note t = confidence_score [of 5 60 example_query example_data_results "\<lambda>xs ys. (Fin 1, Fin 0)"]
  note d = confidence_score [of 5 60 example_query example_district_results "\<lambda>xs ys. (Fin 1, Fin 0)"]
  have c12: "calculate_confidence 12 = 0.7" and c6: "calculate_confidence 6 = 0.5"
    by (simp_all add: calculate_confidence_def)
  have "(0::int) \<le> 5 \<and> (5::int) \<le> 60" by simp
  with t have mono: "calculate_confidence 5 \<le> calculate_confidence 60" by blast
  obtain a1 where a1: "compare_analysis example_query example_data_results = Inr a1"
      "data_points a1 = 12"
    using example_compare_analysis by blast
  with t have "confidence a1 = calculate_confidence 12" by metis
  with a1 c12 have r1: "\<exists>a. compare_analysis example_query example_data_results = Inr a
          \<and> data_points a = 12 \<and> confidence a = 0.7" by simp
  obtain a2 where a2: "top_n_analysis example_query example_data_results = Inr a2"
      "data_points a2 = 6"
    using example_top_n_analysis by blast
  with t have "confidence a2 = calculate_confidence 6" by metis
  with a2 c6 have r2: "\<exists>a. top_n_analysis example_query example_data_results = Inr a
          \<and> data_points a = 6 \<and> confidence a = 0.5" by simp
  obtain a3 where a3: "trend_analysis example_query example_data_results = Inr a3"
      "data_points a3 = 6"
    using example_trend_analysis by blast
  with t have "confidence a3 = calculate_confidence 6" by metis
  with a3 c6 have r3: "\<exists>a. trend_analysis example_query example_data_results = Inr a
          \<and> data_points a = 6 \<and> confidence a = 0.5" by simp
  obtain a4 where a4:
      "correlation_analysis (\<lambda>xs ys. (Fin 1, Fin 0)) example_query example_data_results = Inr a4"
      "data_points a4 = 6"
    using example_correlation_analysis by blast
  with t have "confidence a4 = calculate_confidence 6" by metis
  with a4 c6 have r4: "\<exists>a. correlation_analysis (\<lambda>xs ys. (Fin 1, Fin 0)) example_query
          example_data_results = Inr a \<and> data_points a = 6 \<and> confidence a = 0.5" by simp
  from t have r5: "confidence (general_analysis example_query example_data_results) = 0.7"
    using example_general_analysis c12 by simp
  from d have r6: "confidence (district_analysis example_query example_district_results) = 0.5"
    using example_district_analysis c6 by simp
  from mono r1 r2 r3 r4 r5 r6 show ?thesis by blast
qed


subsection \<open>Trend analysis\<close>

















subsection \<open>Correlation analysis\<close>

lemma set_merge_inner:
  "set (merge_inner ls rs)
     = {(l, r). l \<in> set ls \<and> r \<in> set rs \<and> state r = state l \<and> year r = year l}"
  by (auto simp: merge_inner_def)

text \<open>
  Claim C2. For a rainfall and a production frame that are both present and not empty and
  both carry the join keys \<open>state\<close> and \<open>year\<close>, \<open>correlation_analysis\<close> works on their
  inner join on (state, year): the pairs of a rainfall row and a production row that agree
  on both keys. With at most 5 joined rows it returns the empty correlation result, 0 data
  points and confidence 0. With more than 5 joined rows (and each value column in its own
  frame only) it returns the coefficient and p-value that \<open>pearsonr\<close> gives for the two
  joined value columns, with the number of joined rows as sample size and data points;
  and a correlation result is returned only in that case.
\<close>

theorem correlation_needs_more_than_five_rows:
  assumes "map_of dr ''rainfall'' = Some rinfo" and "map_of dr ''production'' = Some pinfo"
    and "\<not> df_empty (dataframe rinfo)" and "\<not> df_empty (dataframe pinfo)"
    and "has_col (dataframe rinfo) ''year''" and "has_col (dataframe pinfo) ''year''"
    and "has_col (dataframe rinfo) ''state''" and "has_col (dataframe pinfo) ''state''"
    and "merged = merge_inner (rows (dataframe rinfo)) (rows (dataframe pinfo))"
  shows "set merged = {(l, r). l \<in> set (rows (dataframe rinfo)) \<and> r \<in> set (rows (dataframe pinfo))
                          \<and> state r = state l \<and> year r = year l}
    \<and> (length merged \<le> 5 \<longrightarrow>
         (\<exists>a. correlation_analysis pearsonr pq dr = Inr a \<and> payload a = None
              \<and> data_points a = 0 \<and> confidence a = 0))
    \<and> (5 < length merged
         \<and> has_col (dataframe rinfo) ''annual_rainfall_mm''
         \<and> \<not> has_col (dataframe pinfo) ''annual_rainfall_mm''
         \<and> has_col (dataframe pinfo) ''production_tonnes''
         \<and> \<not> has_col (dataframe rinfo) ''production_tonnes'' \<longrightarrow>
         (\<exists>a cr. correlation_analysis pearsonr pq dr = Inr a \<and> payload a = Some cr
              \<and> (correlation_coefficient cr, p_value cr)
                  = pearsonr (map (\<lambda>p. annual_rainfall_mm (fst p)) merged)
                             (map (\<lambda>p. production_tonnes (snd p)) merged)
              \<and> sample_size cr = int (length merged)
              \<and> data_points a = int (length merged)))
    \<and> (\<forall>a cr. correlation_analysis pearsonr pq dr = Inr a \<and> payload a = Some cr
              \<longrightarrow> 5 < length merged)"
proof (intro conjI impI allI)
  show "set merged = {(l, r). l \<in> set (rows (dataframe rinfo)) \<and> r \<in> set (rows (dataframe pinfo))
                          \<and> state r = state l \<and> year r = year l}"
    using assms(9) by (simp add: set_merge_inner)
next
  assume "length merged \<le> 5"
  then show "\<exists>a. correlation_analysis pearsonr pq dr = Inr a \<and> payload a = None
              \<and> data_points a = 0 \<and> confidence a = 0"
    using assms by (simp add: correlation_analysis_def Let_def calculate_confidence_def)
next
  assume h: "5 < length merged
         \<and> has_col (dataframe rinfo) ''annual_rainfall_mm''
         \<and> \<not> has_col (dataframe pinfo) ''annual_rainfall_mm''
         \<and> has_col (dataframe pinfo) ''production_tonnes''
         \<and> \<not> has_col (dataframe rinfo) ''production_tonnes''"
  then show "\<exists>a cr. correlation_analysis pearsonr pq dr = Inr a \<and> payload a = Some cr
              \<and> (correlation_coefficient cr, p_value cr)
                  = pearsonr (map (\<lambda>p. annual_rainfall_mm (fst p)) merged)
                             (map (\<lambda>p. production_tonnes (snd p)) merged)
              \<and> sample_size cr = int (length merged)
              \<and> data_points a = int (length merged)"
    using assms
    by (simp add: correlation_analysis_def Let_def merged_col_def split: prod.splits)
next
  fix a cr
  assume "correlation_analysis pearsonr pq dr = Inr a \<and> payload a = Some cr"
  then show "5 < length merged"
    using assms
    by (auto simp: correlation_analysis_def Let_def split: if_splits sum.splits prod.splits)
qed

lemma example_merge_length:
  "length (merge_inner example_rows example_rows) = 6"
  "length (merge_inner example_rows (take 3 example_rows)) = 3"
  by (simp_all add: merge_inner_def example_rows_def example_row_def)

theorem correlation_needs_more_than_five_rows_witness:
  "(\<exists>a cr. correlation_analysis example_pearsonr example_query example_data_results = Inr a
        \<and> payload a = Some cr \<and> correlation_coefficient cr = Fin 0.5
        \<and> sample_size cr = 6 \<and> data_points a = 6)
   \<and> (\<exists>a. correlation_analysis example_pearsonr example_query example_small_results = Inr a
        \<and> payload a = None \<and> data_points a = 0 \<and> confidence a = 0)"
proof
  let ?r = "\<lparr>dataframe = example_rainfall_df, source = ()\<rparr>"
  let ?p = "\<lparr>dataframe = example_production_df, source = ()\<rparr>"
  let ?m = "merge_inner (rows (dataframe ?r)) (rows (dataframe ?p))"
  have len: "length ?m = 6"
    by (simp add: example_rainfall_df_def example_production_df_def example_merge_length)
  have t: "(5 < length ?m
         \<and> has_col (dataframe ?r) ''annual_rainfall_mm''
         \<and> \<not> has_col (dataframe ?p) ''annual_rainfall_mm''
         \<and> has_col (dataframe ?p) ''production_tonnes''
         \<and> \<not> has_col (dataframe ?r) ''production_tonnes'' \<longrightarrow>
         (\<exists>a cr. correlation_analysis example_pearsonr example_query example_data_results = Inr a
              \<and> payload a = Some cr
              \<and> (correlation_coefficient cr, p_value cr)
                  = example_pearsonr (map (\<lambda>p. annual_rainfall_mm (fst p)) ?m)
                             (map (\<lambda>p. production_tonnes (snd p)) ?m)
              \<and> sample_size cr = int (length ?m)
              \<and> data_points a = int (length ?m)))"
    using correlation_needs_more_than_five_rows [of example_data_results ?r ?p ?m
        example_pearsonr example_query]
    by (simp add: example_data_results_def example_rainfall_df_def example_production_df_def
        example_rows_def df_empty_def has_col_def)
  have "5 < length ?m
         \<and> has_col (dataframe ?r) ''annual_rainfall_mm''
         \<and> \<not> has_col (dataframe ?p) ''annual_rainfall_mm''
         \<and> has_col (dataframe ?p) ''production_tonnes''
         \<and> \<not> has_col (dataframe ?r) ''production_tonnes''"
    using len by (simp add: has_col_def example_rainfall_df_def example_production_df_def)
  with t obtain a cr where
      "correlation_analysis example_pearsonr example_query example_data_results = Inr a"
      "payload a = Some cr"
      "(correlation_coefficient cr, p_value cr)
          = example_pearsonr (map (\<lambda>p. annual_rainfall_mm (fst p)) ?m)
                             (map (\<lambda>p. production_tonnes (snd p)) ?m)"
      "sample_size cr = int (length ?m)" "data_points a = int (length ?m)"
    by blast
  then show "\<exists>a cr. correlation_analysis example_pearsonr example_query example_data_results = Inr a
        \<and> payload a = Some cr \<and> correlation_coefficient cr = Fin 0.5
        \<and> sample_size cr = 6 \<and> data_points a = 6"
    using len by (intro exI [of _ a] exI [of _ cr]) (simp add: example_pearsonr_def)
next
  let ?r = "\<lparr>dataframe = example_rainfall_df, source = ()\<rparr>"
  let ?p = "\<lparr>dataframe = \<lparr>columns = [''state'', ''crop'', ''year'', ''production_tonnes''],
                            rows = take 3 example_rows\<rparr>, source = ()\<rparr>"
  let ?m = "merge_inner (rows (dataframe ?r)) (rows (dataframe ?p))"
  have len: "length ?m \<le> 5"
    by (simp add: example_rainfall_df_def example_merge_length)
  have "length ?m \<le> 5 \<longrightarrow>
         (\<exists>a. correlation_analysis example_pearsonr example_query example_small_results = Inr a
              \<and> payload a = None \<and> data_points a = 0 \<and> confidence a = 0)"
    using correlation_needs_more_than_five_rows [of example_small_results ?r ?p ?m
        example_pearsonr example_query]
    by (simp add: example_small_results_def example_rainfall_df_def
        example_rows_def df_empty_def has_col_def)
  with len show "\<exists>a. correlation_analysis example_pearsonr example_query example_small_results = Inr a
        \<and> payload a = None \<and> data_points a = 0 \<and> confidence a = 0"
    by blast
qed


section \<open>Properties of the query engine\<close>

subsection \<open>Year extraction\<close>





text \<open>An explicit year contributes the captured group of the pattern, its century.\<close>

lemma extract_years_explicit_year:
  "extract_years 2026 ''rice in 2015 and 2020'' = [20]"
  by code_simp




subsection \<open>Top-N extraction\<close>












subsection \<open>Entity extraction\<close>

text \<open>Evaluation: the lower-cased tables and example queries, computed once, and the
  rewrite rules that run the substring scans.\<close>

lemmas eval_simps =
  is_in.simps starts_with.simps filter.simps list.map foldl.simps append.simps concat.simps
  char.inject list.inject list.distinct if_True if_False simp_thms fst_conv snd_conv prod.case
  list_all_Nil_iff list_all_Cons_iff list_ex_Nil_iff list_ex_Cons_iff set_simps insert_iff
  empty_iff Let_def

lemma lower_INDIAN_STATES:
  "map lower INDIAN_STATES =
     [''andhra pradesh'', ''arunachal pradesh'', ''assam'', ''bihar'',
      ''chhattisgarh'', ''goa'', ''gujarat'', ''haryana'', ''himachal pradesh'',
      ''jharkhand'', ''karnataka'', ''kerala'', ''madhya pradesh'', ''maharashtra'',
      ''manipur'', ''meghalaya'', ''mizoram'', ''nagaland'', ''odisha'', ''punjab'',
      ''rajasthan'', ''sikkim'', ''tamil nadu'', ''telangana'', ''tripura'',
      ''uttar pradesh'', ''uttarakhand'', ''west bengal'', ''delhi'',
      ''jammu and kashmir'', ''ladakh'', ''puducherry'', ''chandigarh'',
      ''dadra and nagar haveli'', ''daman and diu'', ''lakshadweep'',
      ''andaman and nicobar islands'']"
  by code_simp

lemma lower_MAJOR_CROPS:
  "map lower MAJOR_CROPS =
     [''rice'', ''wheat'', ''maize'', ''bajra'', ''jowar'', ''barley'', ''ragi'',
      ''cotton'', ''sugarcane'', ''jute'', ''tobacco'', ''tea'', ''coffee'',
      ''coconut'', ''groundnut'', ''soybean'', ''sunflower'', ''rapeseed'',
      ''mustard'', ''potato'', ''onion'', ''tomato'', ''pulses'', ''chickpea'',
      ''lentil'', ''arhar'', ''moong'', ''urad'', ''masoor'', ''fruits'',
      ''vegetables'']"
  by code_simp

lemma lower_STATE_ABBREVIATIONS:
  "map (\<lambda>p. lower (fst p)) STATE_ABBREVIATIONS =
     [''ap'', ''ar'', ''as'', ''br'', ''cg'', ''ga'', ''gj'', ''hr'', ''hp'', ''jh'',
      ''ka'', ''kl'', ''mp'', ''mh'', ''mn'', ''ml'', ''mz'', ''nl'', ''od'', ''pb'',
      ''rj'', ''sk'', ''tn'', ''tg'', ''tr'', ''up'', ''uk'', ''wb'', ''dl'', ''jk'',
      ''la'', ''py'']"
  by code_simp

lemmas lower_names =
  lower_INDIAN_STATES [unfolded INDIAN_STATES_def list.map list.inject simp_thms]
  lower_MAJOR_CROPS [unfolded MAJOR_CROPS_def list.map list.inject simp_thms]
  lower_STATE_ABBREVIATIONS [unfolded STATE_ABBREVIATIONS_def list.map list.inject fst_conv simp_thms]

lemma lower_examples:
  "lower example_abbreviation_query = ''rice in punjab as in haryana''"
  "lower example_category_query = ''pulses in punjab and haryana''"
  "lower example_entities_query = ''compare wheat in punjab and haryana''"
  "lower example_entities_query_swapped = ''haryana versus punjab: wheat''"
  by code_simp+

lemma example_abbreviation_query_entities:
  "mentioned_states example_abbreviation_query = [''Haryana'', ''Punjab'']"
  "mentioned_crops example_abbreviation_query = [''Rice'']"
  "extract_states example_abbreviation_query = [''Haryana'', ''Punjab'', ''Assam'']"
  unfolding mentioned_states_def mentioned_crops_def mentions_def extract_states_def
    abbr_in_query_def INDIAN_STATES_def MAJOR_CROPS_def STATE_ABBREVIATIONS_def
  by (simp only: lower_examples lower_names eval_simps cong: if_weak_cong)+

lemma example_category_query_entities:
  "mentioned_states example_category_query = [''Haryana'', ''Punjab'']"
  "mentioned_crops example_category_query = [''Pulses'']"
  "extract_crops example_category_query
     = {''Pulses'', ''Chickpea'', ''Arhar'', ''Moong'', ''Urad'', ''Lentil'', ''Masoor''}"
  unfolding mentioned_states_def mentioned_crops_def mentions_def extract_crops_def
    INDIAN_STATES_def MAJOR_CROPS_def CROP_CATEGORIES_def
  by (simp only: lower_examples lower_names eval_simps cong: if_weak_cong)+

lemma example_entities:
  "mentioned_states example_entities_query = [''Haryana'', ''Punjab'']"
  "mentioned_crops example_entities_query = [''Wheat'']"
  "list_all (\<lambda>(abbr, full_name). \<not> abbr_in_query abbr example_entities_query)
     STATE_ABBREVIATIONS"
  "list_all (\<lambda>(category, crop_list). \<not> is_in category (lower example_entities_query))
     CROP_CATEGORIES"
  "mentioned_states example_entities_query_swapped = [''Haryana'', ''Punjab'']"
  "mentioned_crops example_entities_query_swapped = [''Wheat'']"
  "list_all (\<lambda>(abbr, full_name). \<not> abbr_in_query abbr example_entities_query_swapped)
     STATE_ABBREVIATIONS"
  "list_all (\<lambda>(category, crop_list). \<not> is_in category (lower example_entities_query_swapped))
     CROP_CATEGORIES"
  unfolding mentioned_states_def mentioned_crops_def mentions_def abbr_in_query_def
    INDIAN_STATES_def MAJOR_CROPS_def STATE_ABBREVIATIONS_def CROP_CATEGORIES_def
  by (simp only: lower_examples lower_names eval_simps cong: if_weak_cong)+

lemma abbreviation_loop_id:
  "\<forall>(abbr, full_name) \<in> set abbrs. abbr_in_query abbr q \<longrightarrow> full_name \<in> set found \<Longrightarrow>
   foldl (\<lambda>found (abbr, full_name).
            if abbr_in_query abbr q then
              (if full_name \<notin> set found then found @ [full_name] else found)
            else found) found abbrs = found"
  by (induction abbrs arbitrary: found) auto

lemma extract_states_mentioned:
  assumes "\<forall>(abbr, full_name) \<in> set STATE_ABBREVIATIONS.
             abbr_in_query abbr q \<longrightarrow> full_name \<in> set (mentioned_states q)"
  shows "extract_states q = mentioned_states q"
proof -
  have "mentions q = (\<lambda>st. is_in (lower st) (lower q))"
    by (rule ext) (simp add: mentions_def)
  then have m: "filter (\<lambda>st. is_in (lower st) (lower q)) INDIAN_STATES = mentioned_states q"
    by (simp add: mentioned_states_def)
  show ?thesis
    unfolding extract_states_def Let_def m
    by (rule abbreviation_loop_id) (rule assms)
qed

lemma extract_crops_mentioned:
  assumes "\<forall>(category, crop_list) \<in> set CROP_CATEGORIES. \<not> is_in category (lower q)"
  shows "extract_crops q = set (mentioned_crops q)"
proof -
  have "mentions q = (\<lambda>c. is_in (lower c) (lower q))"
    by (rule ext) (simp add: mentions_def)
  then have m: "filter (\<lambda>c. is_in (lower c) (lower q)) MAJOR_CROPS = mentioned_crops q"
    by (simp add: mentioned_crops_def)
  have e: "filter (\<lambda>(category, crop_list). is_in category (lower q)) CROP_CATEGORIES = []"
    using assms by (auto simp: filter_empty_conv)
  show ?thesis
    unfolding extract_crops_def Let_def m e by simp
qed

text \<open>
  Claim C3, as stated: a query that contains exactly two known state names and one known
  crop name yields exactly those. It fails in two ways. A word of the query that is a
  state abbreviation adds that state: "as" adds Assam. A crop category named in the query
  adds its crops: "pulses" is a crop name and a category, and adds six crops.
\<close>

theorem entity_extraction_counterexample:
  "mentioned_states example_abbreviation_query = [''Haryana'', ''Punjab'']
   \<and> mentioned_crops example_abbreviation_query = [''Rice'']
   \<and> extract_states example_abbreviation_query = [''Haryana'', ''Punjab'', ''Assam'']
   \<and> mentioned_states example_category_query = [''Haryana'', ''Punjab'']
   \<and> mentioned_crops example_category_query = [''Pulses'']
   \<and> extract_crops example_category_query
       = {''Pulses'', ''Chickpea'', ''Arhar'', ''Moong'', ''Urad'', ''Lentil'', ''Masoor''}"
  using example_abbreviation_query_entities example_category_query_entities by blast

text \<open>
  Claim C3, amended. For every query that contains (letter case apart) exactly two state
  names of \<open>INDIAN_STATES\<close> and exactly one crop name of \<open>MAJOR_CROPS\<close>, in which every
  state abbreviation that stands as a word (between blanks, or before a comma) is that of
  one of the two states, and which names no crop category, \<open>extract_states\<close> returns
  exactly the two states and \<open>extract_crops\<close> exactly the crop. The hypotheses do not
  depend on the order of the names in the query, and the states come in the order of the
  table.
\<close>

theorem entity_extraction_exact:
  assumes "length (mentioned_states q) = 2" and "length (mentioned_crops q) = 1"
    and "\<forall>(abbr, full_name) \<in> set STATE_ABBREVIATIONS.
           abbr_in_query abbr q \<longrightarrow> full_name \<in> set (mentioned_states q)"
    and "\<forall>(category, crop_list) \<in> set CROP_CATEGORIES. \<not> is_in category (lower q)"
  shows "\<exists>s1 s2 c. mentioned_states q = [s1, s2] \<and> s1 \<noteq> s2 \<and> mentioned_crops q = [c]
           \<and> extract_states q = [s1, s2] \<and> extract_crops q = {c}"
proof -
  have d: "distinct (mentioned_states q)"
    unfolding mentioned_states_def by (rule distinct_filter) (simp add: INDIAN_STATES_def)
  from assms(1) obtain s1 s2 where s: "mentioned_states q = [s1, s2]"
    by (cases "mentioned_states q") (auto simp: length_Suc_conv)
  with d have ne: "s1 \<noteq> s2" by simp
  from assms(2) obtain c where c: "mentioned_crops q = [c]"
    by (cases "mentioned_crops q") auto
  from extract_states_mentioned [OF assms(3)] s have "extract_states q = [s1, s2]" by simp
  moreover from extract_crops_mentioned [OF assms(4)] c have "extract_crops q = {c}" by simp
  ultimately show ?thesis using s ne c by blast
qed

theorem entity_extraction_exact_witness:
  "extract_states example_entities_query = [''Haryana'', ''Punjab'']
   \<and> extract_crops example_entities_query = {''Wheat''}
   \<and> extract_states example_entities_query_swapped = [''Haryana'', ''Punjab'']
   \<and> extract_crops example_entities_query_swapped = {''Wheat''}"
proof -
  have a: "\<forall>(abbr, full_name) \<in> set STATE_ABBREVIATIONS.
           abbr_in_query abbr example_entities_query
             \<longrightarrow> full_name \<in> set (mentioned_states example_entities_query)"
    using example_entities(3) unfolding list_all_iff by blast
  have b: "\<forall>(category, crop_list) \<in> set CROP_CATEGORIES.
           \<not> is_in category (lower example_entities_query)"
    using example_entities(4) unfolding list_all_iff by blast
  have a': "\<forall>(abbr, full_name) \<in> set STATE_ABBREVIATIONS.
           abbr_in_query abbr example_entities_query_swapped
             \<longrightarrow> full_name \<in> set (mentioned_states example_entities_query_swapped)"
    using example_entities(7) unfolding list_all_iff by blast
  have b': "\<forall>(category, crop_list) \<in> set CROP_CATEGORIES.
           \<not> is_in category (lower example_entities_query_swapped)"
    using example_entities(8) unfolding list_all_iff by blast
  from entity_extraction_exact [OF _ _ a b] example_entities(1,2)
  have "extract_states example_entities_query = [''Haryana'', ''Punjab'']
   \<and> extract_crops example_entities_query = {''Wheat''}" by auto
  moreover from entity_extraction_exact [OF _ _ a' b'] example_entities(5,6)
  have "extract_states example_entities_query_swapped = [''Haryana'', ''Punjab'']
   \<and> extract_crops example_entities_query_swapped = {''Wheat''}" by auto
  ultimately show ?thesis by blast
qed


subsection \<open>The top-level exception handler\<close>

lemma starts_with_append: "starts_with x (x @ b)"
  by (induction x) simp_all

lemma is_in_append: "is_in x (a @ x @ b)"
proof (induction a)
  case Nil
  show ?case by (cases "x @ b") (use starts_with_append [of x b] in auto)
next
  case (Cons c a)
  then show ?case by simp
qed

lemma step_raises_run_pipeline:
  "step_raises p query e \<Longrightarrow> run_pipeline p start_time end_time query = Inl e"
  unfolding step_raises_def run_pipeline_def by (auto split: sum.splits)

text \<open>
  Claim C8. If any step of the pipeline raises an exception \<open>e\<close>, \<open>process_query\<close>
  returns a result (it does not raise): the answer is the error message built around
  \<^verbatim>\<open>str(e)\<close>, which it contains; data, visualizations and sources are empty; confidence
  is 0.0 and the number of data points 0; and the entry \<^verbatim>\<open>'error'\<close> is \<^verbatim>\<open>str(e)\<close>.
\<close>

theorem process_query_catches_exceptions:
  assumes "step_raises p query e"
    and "r = process_query p start_time end_time query"
  shows "answer r = ''I encountered an error processing your query: '' @ str_of_error e
                      @ ''. Please try rephrasing your question.''
    \<and> is_in (str_of_error e) (answer r)
    \<and> result_data r = [] \<and> visualizations r = [] \<and> result_sources r = []
    \<and> result_confidence r = 0.0 \<and> result_data_points r = 0
    \<and> error_text r = Some (str_of_error e)"
proof -
  have "run_pipeline p start_time end_time query = Inl e"
    using assms(1) by (rule step_raises_run_pipeline)
  then have a: "answer r = ''I encountered an error processing your query: '' @ str_of_error e
                      @ ''. Please try rephrasing your question.''"
    and rest: "result_data r = [] \<and> visualizations r = [] \<and> result_sources r = []
      \<and> result_confidence r = 0.0 \<and> result_data_points r = 0
      \<and> error_text r = Some (str_of_error e)"
    using assms(2) by (simp_all add: process_query_def)
  have "is_in (str_of_error e) (answer r)"
    unfolding a by (rule is_in_append)
  with a rest show ?thesis by blast
qed

lemma example_pipeline_raises:
  "step_raises example_pipeline ''production trend in Punjab''
     (KeyError ''Column not found: production_tonnes'')"
proof -
  have "analyze_data example_pearsonr
          (example_query\<lparr>original_query := ''production trend in Punjab'', intent := ''trend''\<rparr>)
          example_broken_results = Inl (KeyError ''Column not found: production_tonnes'')"
    by (simp add: analyze_data_def trend_analysis_def production_trend_def
        example_broken_results_def example_query_def df_empty_def has_col_def example_rows_def)
  then show ?thesis
    by (simp add: step_raises_def example_pipeline_def)
qed

theorem process_query_catches_exceptions_witness:
  "answer (process_query example_pipeline 0 1 ''production trend in Punjab'')
     = ''I encountered an error processing your query: '' @ [CHR 0x27] @ ''Column not found: production_tonnes''
         @ [CHR 0x27] @ ''. Please try rephrasing your question.''
   \<and> result_confidence (process_query example_pipeline 0 1 ''production trend in Punjab'') = 0
   \<and> error_text (process_query example_pipeline 0 1 ''production trend in Punjab'')
       = Some ([CHR 0x27] @ ''Column not found: production_tonnes'' @ [CHR 0x27])"
  using process_query_catches_exceptions [OF example_pipeline_raises refl, of 0 1]
  by simp


section \<open>Properties of the fetcher\<close>

subsection \<open>The cache round trip\<close>

lemma fetch_data_known_endpoint:
  assumes "get_api_url ep = Inr u"
  shows "fetch_data lib cfg e st ep fl =
     (case (if is_cache_valid (files st) (clock_valid e) (request_cache_path lib cfg ep fl)
            then read_cache (files st) (request_cache_path lib cfg ep fl) else None) of
        Some cached_data \<Rightarrow> (Inr (cached_data\<lparr>from_cache := True\<rparr>), st)
      | None \<Rightarrow>
          (if is_demo_mode cfg then (get_demo_data lib (now_iso e) ep fl, st)
           else fetch_live lib e st ep fl u (get_api_params cfg fl)
                  (request_cache_path lib cfg ep fl)))"
  using assms unfolding fetch_data_def request_cache_path_def Let_def by simp

lemma get_demo_data_returns:
  assumes "state_filter_is_str fl"
  shows "\<exists>r. get_demo_data lib now ep fl = Inr r \<and> demo_mode r = Some True \<and> from_cache r = False"
  using assms
  by (auto simp: get_demo_data_def state_names_def state_filter_is_str_def demo_result_def
      split: option.splits pyval.splits)

lemma fetch_live_sends_one_request:
  "requests_sent (snd (fetch_live lib e st ep fl u params path)) = Suc (requests_sent st)"
  by (simp add: fetch_live_def api_error_fallback_def Let_def
      split: api_outcome.splits option.splits sum.splits)

lemma fetch_live_success:
  assumes "api_response e = Response d" and "count_records d = Inr n"
  shows "fst (fetch_live lib e st ep fl u params path) =
     Inr \<lparr>data = d, endpoint = ep, url = u, parameters = params, timestamp = now_iso e,
          from_cache = False, records_count = n, demo_mode = None, cache_expired = None\<rparr>"
    and "cache_write e = WriteOk \<Longrightarrow>
      files (snd (fetch_live lib e st ep fl u params path)) path =
        Some \<lparr>content = Stored \<lparr>data = d, endpoint = ep, url = u, parameters = params,
                 timestamp = now_iso e, from_cache = False, records_count = n,
                 demo_mode = None, cache_expired = None\<rparr>,
              st_mtime = write_mtime e\<rparr>"
  using assms by (simp_all add: fetch_live_def Let_def write_cache_def)

lemma fetch_live_failure:
  assumes "api_response e = RequestFailed \<or> api_response e = InvalidBody"
  shows "fst (fetch_live lib e st ep fl u params path) =
     (case read_cache (files st) path of
        Some c \<Rightarrow> Inr (c\<lparr>from_cache := True, cache_expired := Some True\<rparr>)
      | None \<Rightarrow> get_demo_data lib (now_iso e) ep fl)"
  using assms
  by (auto simp: fetch_live_def api_error_fallback_def Let_def read_cache_def
      split: option.splits)



lemma cache_miss:
  assumes "get_api_url ep = Inr u"
    and "\<not> is_cache_valid (files st) (clock_valid e) (request_cache_path lib cfg ep fl)"
  shows "fetch_data lib cfg e st ep fl =
     (if is_demo_mode cfg then (get_demo_data lib (now_iso e) ep fl, st)
      else fetch_live lib e st ep fl u (get_api_params cfg fl) (request_cache_path lib cfg ep fl))"
  using assms(2) by (simp add: fetch_data_known_endpoint [OF assms(1)])

lemma live_fetch_caches:
  assumes "get_api_url ep = Inr u" and "\<not> is_demo_mode cfg"
    and "\<not> is_cache_valid (files st) (clock_valid e) (request_cache_path lib cfg ep fl)"
    and "api_response e = Response d" and "count_records d = Inr n"
    and "r = \<lparr>data = d, endpoint = ep, url = u, parameters = get_api_params cfg fl,
               timestamp = now_iso e, from_cache = False, records_count = n,
               demo_mode = None, cache_expired = None\<rparr>"
  shows "fst (fetch_data lib cfg e st ep fl) = Inr r"
    and "cache_write e = WriteOk \<Longrightarrow>
      files (snd (fetch_data lib cfg e st ep fl)) (request_cache_path lib cfg ep fl)
        = Some \<lparr>content = Stored r, st_mtime = write_mtime e\<rparr>"
  using assms(2,6) fetch_live_success [OF assms(4,5)]
  by (simp_all add: cache_miss [OF assms(1,3)])


lemma example_endpoint:
  "get_api_url ''imd_rainfall''
     = Inr ''https://api.data.gov.in/resource/9ef84268-d588-465a-a308-a864a43d0070''"
  by (simp add: get_api_url_def API_ENDPOINTS_def)

lemma example_not_demo: "\<not> is_demo_mode example_cfg"
  by (simp add: is_demo_mode_def validate_config_def example_cfg_def)

lemma example_first_fetch:
  "fst (fetch_data example_lib example_cfg example_env_ok example_fetcher
          ''imd_rainfall'' example_filters) = Inr example_live_result"
  "files example_fetcher_cached
     (request_cache_path example_lib example_cfg ''imd_rainfall'' example_filters)
     = Some \<lparr>content = Stored example_live_result, st_mtime = 1001\<rparr>"
proof -
  have v: "\<not> is_cache_valid (files example_fetcher) (clock_valid example_env_ok)
          (request_cache_path example_lib example_cfg ''imd_rainfall'' example_filters)"
    by (simp add: is_cache_valid_def example_fetcher_def)
  have a: "api_response example_env_ok = Response example_body"
    and w: "cache_write example_env_ok = WriteOk"
    and m: "write_mtime example_env_ok = 1001"
    by (simp_all add: example_env_ok_def)
  have c: "count_records example_body = Inr 1"
    by (simp add: count_records_def example_body_def)
  have r: "example_live_result = \<lparr>data = example_body, endpoint = ''imd_rainfall'',
      url = ''https://api.data.gov.in/resource/9ef84268-d588-465a-a308-a864a43d0070'',
      parameters = get_api_params example_cfg example_filters,
      timestamp = now_iso example_env_ok, from_cache = False, records_count = 1,
      demo_mode = None, cache_expired = None\<rparr>"
    by (simp add: example_live_result_def example_env_ok_def)
  show "fst (fetch_data example_lib example_cfg example_env_ok example_fetcher
          ''imd_rainfall'' example_filters) = Inr example_live_result"
    by (rule live_fetch_caches(1) [OF example_endpoint example_not_demo v a c r])
  show "files example_fetcher_cached
     (request_cache_path example_lib example_cfg ''imd_rainfall'' example_filters)
     = Some \<lparr>content = Stored example_live_result, st_mtime = 1001\<rparr>"
    using live_fetch_caches(2) [OF example_endpoint example_not_demo v a c r w] m
    by (simp add: example_fetcher_cached_def)
qed




subsection \<open>Expiry\<close>

text \<open>
  Claim C5. For every cached entry of a request to a known endpoint whose age (the reading
  of the clock minus the modification time of the cache file) is at least \<open>CACHE_TTL\<close>,
  \<open>is_cache_valid\<close> is false and \<open>fetch_data\<close> goes on as after a miss: in demo mode it
  returns demo data, else it sends the one live request, and where that request succeeds
  it returns the live result, marked \<open>from_cache\<close> false.
\<close>

theorem expired_cache_is_a_miss:
  assumes "get_api_url ep = Inr u"
    and "files st (request_cache_path lib cfg ep fl) = Some f"
    and "CACHE_TTL \<le> clock_valid e - st_mtime f"
  shows "\<not> is_cache_valid (files st) (clock_valid e) (request_cache_path lib cfg ep fl)
    \<and> fetch_data lib cfg e st ep fl =
        (if is_demo_mode cfg then (get_demo_data lib (now_iso e) ep fl, st)
         else fetch_live lib e st ep fl u (get_api_params cfg fl)
                (request_cache_path lib cfg ep fl))
    \<and> (\<not> is_demo_mode cfg \<longrightarrow>
          requests_sent (snd (fetch_data lib cfg e st ep fl)) = Suc (requests_sent st)
          \<and> (\<forall>d n. api_response e = Response d \<and> count_records d = Inr n \<longrightarrow>
                fst (fetch_data lib cfg e st ep fl) =
                  Inr \<lparr>data = d, endpoint = ep, url = u, parameters = get_api_params cfg fl,
                       timestamp = now_iso e, from_cache = False, records_count = n,
                       demo_mode = None, cache_expired = None\<rparr>))"
proof -
  have v: "\<not> is_cache_valid (files st) (clock_valid e) (request_cache_path lib cfg ep fl)"
    using assms(2,3) by (simp add: is_cache_valid_def)
  note m = cache_miss [OF assms(1) v]
  have "\<not> is_demo_mode cfg \<longrightarrow>
          requests_sent (snd (fetch_data lib cfg e st ep fl)) = Suc (requests_sent st)"
    by (simp add: m fetch_live_sends_one_request)
  moreover have "\<not> is_demo_mode cfg \<longrightarrow>
          (\<forall>d n. api_response e = Response d \<and> count_records d = Inr n \<longrightarrow>
                fst (fetch_data lib cfg e st ep fl) =
                  Inr \<lparr>data = d, endpoint = ep, url = u, parameters = get_api_params cfg fl,
                       timestamp = now_iso e, from_cache = False, records_count = n,
                       demo_mode = None, cache_expired = None\<rparr>)"
    by (simp add: m fetch_live_success(1))
  ultimately show ?thesis using v m by blast
qed

lemma example_cached_file:
  "files example_fetcher_cached
     (request_cache_path example_lib example_cfg ''imd_rainfall'' example_filters)
     = Some \<lparr>content = Stored example_live_result, st_mtime = 1001\<rparr>"
  by (rule example_first_fetch(2))

theorem expired_cache_is_a_miss_witness:
  "\<not> is_cache_valid (files example_fetcher_cached) 10000
       (request_cache_path example_lib example_cfg ''imd_rainfall'' example_filters)
   \<and> requests_sent (snd (fetch_data example_lib example_cfg
         (example_env_late\<lparr>api_response := Response example_body\<rparr>) example_fetcher_cached
         ''imd_rainfall'' example_filters))
       = Suc (requests_sent example_fetcher_cached)
   \<and> fst (fetch_data example_lib example_cfg
         (example_env_late\<lparr>api_response := Response example_body\<rparr>) example_fetcher_cached
         ''imd_rainfall'' example_filters)
       = Inr (example_live_result\<lparr>timestamp := ''2025-01-01T02:46:40''\<rparr>)"
proof -
  let ?e = "example_env_late\<lparr>api_response := Response example_body\<rparr>"
  have age: "CACHE_TTL \<le> clock_valid ?e
      - st_mtime \<lparr>content = Stored example_live_result, st_mtime = 1001\<rparr>"
    by (simp add: example_env_late_def CACHE_TTL_def)
  have c: "api_response ?e = Response example_body \<and> count_records example_body = Inr 1"
    by (simp add: count_records_def example_body_def)
  have cv: "clock_valid ?e = 10000" and iso: "now_iso ?e = ''2025-01-01T02:46:40''"
    by (simp_all add: example_env_late_def)
  from expired_cache_is_a_miss [OF example_endpoint example_cached_file age]
    example_not_demo c
  have "\<not> is_cache_valid (files example_fetcher_cached) (clock_valid ?e)
       (request_cache_path example_lib example_cfg ''imd_rainfall'' example_filters)"
    and "requests_sent (snd (fetch_data example_lib example_cfg ?e example_fetcher_cached
         ''imd_rainfall'' example_filters)) = Suc (requests_sent example_fetcher_cached)"
    and "fst (fetch_data example_lib example_cfg ?e example_fetcher_cached
         ''imd_rainfall'' example_filters) =
       Inr \<lparr>data = example_body, endpoint = ''imd_rainfall'',
            url = ''https://api.data.gov.in/resource/9ef84268-d588-465a-a308-a864a43d0070'',
            parameters = get_api_params example_cfg example_filters,
            timestamp = now_iso ?e, from_cache = False, records_count = 1,
            demo_mode = None, cache_expired = None\<rparr>"
    by blast+
  then show ?thesis
    unfolding cv iso by (simp add: example_live_result_def)
qed


subsection \<open>The fallback chain\<close>

text \<open>
  Claim C6. When the live request of a fetch fails (the request raises, or its body is no
  JSON), \<open>fetch_data\<close> returns, without raising: the cached dict of the request, marked
  \<open>from_cache\<close> and \<open>cache_expired\<close>, when the cache file exists and is readable, and the
  demo data otherwise. Exactly one request has been sent: there is no retry. The filter
  \<open>state\<close> is a string or absent, as the callers pass it.
\<close>

theorem fetch_failure_fallback_chain:
  assumes "get_api_url ep = Inr u" and "\<not> is_demo_mode cfg"
    and "\<not> (is_cache_valid (files st) (clock_valid e) (request_cache_path lib cfg ep fl)
           \<and> read_cache (files st) (request_cache_path lib cfg ep fl) \<noteq> None)"
    and "api_response e = RequestFailed \<or> api_response e = InvalidBody"
    and "state_filter_is_str fl"
  shows "(\<forall>c. read_cache (files st) (request_cache_path lib cfg ep fl) = Some c \<longrightarrow>
            fst (fetch_data lib cfg e st ep fl)
              = Inr (c\<lparr>from_cache := True, cache_expired := Some True\<rparr>))
    \<and> (read_cache (files st) (request_cache_path lib cfg ep fl) = None \<longrightarrow>
          (\<exists>r. fst (fetch_data lib cfg e st ep fl) = Inr r
               \<and> get_demo_data lib (now_iso e) ep fl = Inr r \<and> demo_mode r = Some True))
    \<and> (\<exists>r. fst (fetch_data lib cfg e st ep fl) = Inr r)
    \<and> requests_sent (snd (fetch_data lib cfg e st ep fl)) = Suc (requests_sent st)"
proof -
  have m: "fetch_data lib cfg e st ep fl =
      fetch_live lib e st ep fl u (get_api_params cfg fl) (request_cache_path lib cfg ep fl)"
    using assms(2,3) by (auto simp: fetch_data_known_endpoint [OF assms(1)])
  note f = fetch_live_failure [OF assms(4), of lib st ep fl u "get_api_params cfg fl"
      "request_cache_path lib cfg ep fl"]
  obtain r where r: "get_demo_data lib (now_iso e) ep fl = Inr r" "demo_mode r = Some True"
    using get_demo_data_returns [OF assms(5)] by blast
  have 1: "\<forall>c. read_cache (files st) (request_cache_path lib cfg ep fl) = Some c \<longrightarrow>
            fst (fetch_data lib cfg e st ep fl)
              = Inr (c\<lparr>from_cache := True, cache_expired := Some True\<rparr>)"
    using f by (simp add: m)
  have 2: "read_cache (files st) (request_cache_path lib cfg ep fl) = None \<longrightarrow>
          (\<exists>r. fst (fetch_data lib cfg e st ep fl) = Inr r
               \<and> get_demo_data lib (now_iso e) ep fl = Inr r \<and> demo_mode r = Some True)"
    using f r by (simp add: m)
  have 3: "\<exists>r. fst (fetch_data lib cfg e st ep fl) = Inr r"
    using 1 2 by (cases "read_cache (files st) (request_cache_path lib cfg ep fl)") auto
  have 4: "requests_sent (snd (fetch_data lib cfg e st ep fl)) = Suc (requests_sent st)"
    by (simp add: m fetch_live_sends_one_request)
  from 1 2 3 4 show ?thesis by blast
qed

lemma example_filters_ok: "state_filter_is_str example_filters"
  by (simp add: state_filter_is_str_def example_filters_def)

lemma example_demo_data:
  "\<exists>r. get_demo_data example_lib ''2025-01-01T02:46:40'' ''imd_rainfall'' example_filters = Inr r
       \<and> records_count r = 12 \<and> url r = ''demo://imd_rainfall''"
  by (simp add: get_demo_data_def state_names_def example_filters_def demo_result_def
      rainfall_records_def py_range_def)

theorem fetch_failure_fallback_chain_witness:
  "fst (fetch_data example_lib example_cfg example_env_late example_fetcher_cached
          ''imd_rainfall'' example_filters)
     = Inr (example_live_result\<lparr>from_cache := True, cache_expired := Some True\<rparr>)
   \<and> (\<exists>r. fst (fetch_data example_lib example_cfg example_env_late example_fetcher
               ''imd_rainfall'' example_filters) = Inr r
          \<and> demo_mode r = Some True \<and> records_count r = 12)
   \<and> requests_sent (snd (fetch_data example_lib example_cfg example_env_late example_fetcher
               ''imd_rainfall'' example_filters)) = 1"
proof -
  let ?p = "request_cache_path example_lib example_cfg ''imd_rainfall'' example_filters"
  have fail: "api_response example_env_late = RequestFailed
      \<or> api_response example_env_late = InvalidBody"
    and iso: "now_iso example_env_late = ''2025-01-01T02:46:40''"
    by (simp_all add: example_env_late_def)
  have stale: "\<not> (is_cache_valid (files example_fetcher_cached) (clock_valid example_env_late) ?p
           \<and> read_cache (files example_fetcher_cached) ?p \<noteq> None)"
    by (simp add: is_cache_valid_def example_cached_file example_env_late_def CACHE_TTL_def)
  have rd: "read_cache (files example_fetcher_cached) ?p = Some example_live_result"
    by (simp add: read_cache_def example_cached_file)
  have none: "\<not> (is_cache_valid (files example_fetcher) (clock_valid example_env_late) ?p
           \<and> read_cache (files example_fetcher) ?p \<noteq> None)"
    and rd0: "read_cache (files example_fetcher) ?p = None"
    by (simp_all add: read_cache_def example_fetcher_def)
  from fetch_failure_fallback_chain [OF example_endpoint example_not_demo stale fail
      example_filters_ok] rd
  have 1: "fst (fetch_data example_lib example_cfg example_env_late example_fetcher_cached
          ''imd_rainfall'' example_filters)
     = Inr (example_live_result\<lparr>from_cache := True, cache_expired := Some True\<rparr>)"
    by blast
  from fetch_failure_fallback_chain [OF example_endpoint example_not_demo none fail
      example_filters_ok] rd0
  obtain r where r: "fst (fetch_data example_lib example_cfg example_env_late example_fetcher
               ''imd_rainfall'' example_filters) = Inr r"
      "get_demo_data example_lib (now_iso example_env_late) ''imd_rainfall'' example_filters = Inr r"
      "demo_mode r = Some True"
    and 3: "requests_sent (snd (fetch_data example_lib example_cfg example_env_late example_fetcher
               ''imd_rainfall'' example_filters)) = Suc (requests_sent example_fetcher)"
    by blast
  from r(2) example_demo_data have "records_count r = 12" unfolding iso by auto
  with r(1,3) have 2: "\<exists>r. fst (fetch_data example_lib example_cfg example_env_late example_fetcher
               ''imd_rainfall'' example_filters) = Inr r
          \<and> demo_mode r = Some True \<and> records_count r = 12"
    by blast
  from 1 2 3 show ?thesis by (simp add: example_fetcher_def)
qed


end
